theory Spec2Isabelle
  imports Main "HOL-Library.Sublist"
begin

section \<open>Strings and values of the generated scripts\<close>

text \<open>
  Every tool of the server builds the text of a JXA script from a template and hands it
  to \<open>executeJxa\<close>. Two levels are modelled. The TypeScript level is the function that
  validates its input and fills the template. The script level is what the template's
  JavaScript does when it runs against the application; there a hole of the template is an
  expression of the script, and the model takes the value of that expression.
\<close>

definition dq :: string where
  "dq = [CHR 0x22]"

definition sq :: string where
  "sq = [CHR 0x27]"

definition newline :: string where
  "newline = [CHR 0x0A]"

text \<open>
  The hole \<^verbatim>\<open>${x ? `"${escapeStringForJXA(x)}"` : "null"}\<close>: an absent or empty \<open>x\<close> gives
  the literal \<open>null\<close>, anything else a string literal that denotes \<open>x\<close>.
\<close>

definition strOrNull :: "string option \<Rightarrow> string option" where
  "strOrNull x = (case x of None \<Rightarrow> None | Some s \<Rightarrow> if s = [] then None else Some s)"

text \<open>JavaScript's \<open>a || b\<close> on a string-or-null \<open>a\<close> and a string \<open>b\<close>.\<close>

definition orElse :: "string option \<Rightarrow> string \<Rightarrow> string" where
  "orElse a b = (case a of None \<Rightarrow> b | Some s \<Rightarrow> if s = [] then b else s)"

text \<open>The truthiness of a string-or-null value.\<close>

definition truthy :: "string option \<Rightarrow> bool" where
  "truthy a = (case a of None \<Rightarrow> False | Some s \<Rightarrow> s \<noteq> [])"

text \<open>\<open>error.toString()\<close> of an \<open>Error\<close> thrown with the given message.\<close>

definition errorToString :: "string \<Rightarrow> string" where
  "errorToString msg = ''Error: '' @ msg"

text \<open>Decimal rendering of an integer, as string concatenation renders a number.\<close>

fun showNat :: "nat \<Rightarrow> string" where
  "showNat n = (if n < 10 then [char_of (48 + n)] else showNat (n div 10) @ [char_of (48 + n mod 10)])"

definition showInt :: "int \<Rightarrow> string" where
  "showInt i = (if i < 0 then ''-'' @ showNat (nat (- i)) else showNat (nat i))"

text \<open>The truthiness of a number-or-null value, and its rendering in a concatenation.\<close>

definition numTruthy :: "int option \<Rightarrow> bool" where
  "numTruthy a = (case a of None \<Rightarrow> False | Some i \<Rightarrow> i \<noteq> 0)"

definition showNum :: "int option \<Rightarrow> string" where
  "showNum a = (case a of None \<Rightarrow> ''null'' | Some i \<Rightarrow> showInt i)"

section \<open>The application\<close>

text \<open>
  The state of the document manager as far as the scripts read and write it: the open
  databases, the current one, the records of all open databases, and the group that is
  currently selected. A record handle is the
  position of the record in the store together with the record's data as read there.
\<close>

record database =
  db_name :: string

record dtrecord =
  r_id :: int
  r_uuid :: string
  r_name :: string
  r_path :: string
  r_location :: string
  r_recordType :: string
  r_kind :: string
  r_tags :: "string list"
  r_size :: int
  r_database :: string

record devonthink =
  databases :: "database list"
  currentDatabase :: "database option"
  records :: "dtrecord list"
  currentGroup :: "(nat \<times> dtrecord) option"

type_synonym handle = "nat \<times> dtrecord"

fun firstMatch :: "('a \<Rightarrow> bool) \<Rightarrow> 'a list \<Rightarrow> (nat \<times> 'a) option" where
  "firstMatch P [] = None"
| "firstMatch P (x # xs) =
     (if P x then Some (0, x)
      else (case firstMatch P xs of None \<Rightarrow> None | Some (i, y) \<Rightarrow> Some (Suc i, y)))"

text \<open>\<open>theApp.getRecordWithUuid(u)\<close>: UUIDs are global, so every open database is searched.\<close>

definition getRecordWithUuid :: "devonthink \<Rightarrow> string \<Rightarrow> handle option" where
  "getRecordWithUuid app u = firstMatch (\<lambda>r. r_uuid r = u) (records app)"

text \<open>The assignment \<open>record.tags = ts\<close> through a handle.\<close>

definition setTags :: "devonthink \<Rightarrow> handle \<Rightarrow> string list \<Rightarrow> devonthink" where
  "setTags app h ts = app\<lparr>records := (records app)[fst h := (snd h)\<lparr>r_tags := ts\<rparr>]\<rparr>"

text \<open>The assignment \<open>record.name = n\<close> through a handle.\<close>

definition setName :: "devonthink \<Rightarrow> handle \<Rightarrow> string \<Rightarrow> devonthink" where
  "setName app h n = app\<lparr>records := (records app)[fst h := (snd h)\<lparr>r_name := n\<rparr>]\<rparr>"

section \<open>The injected helpers\<close>

record lookupOptions =
  lo_uuid :: "string option"
  lo_id :: "int option"
  lo_path :: "string option"
  lo_name :: "string option"
  lo_database :: "database option"

record lookupResult =
  lr_record :: "handle option"
  lr_error :: "string option"

definition found :: "handle \<Rightarrow> lookupResult" where
  "found h = \<lparr>lr_record = Some h, lr_error = None\<rparr>"

definition notFound :: "string \<Rightarrow> lookupResult" where
  "notFound msg = \<lparr>lr_record = None, lr_error = Some msg\<rparr>"

text \<open>
  Modelled from the spec: the helper \<open>getRecord\<close> of \<open>utils/jxaHelpers\<close>, which the scripts
  inject, is not among the sources. The spec gives its algorithm: a UUID, when present, is
  looked up globally and nothing else is consulted; otherwise an id is looked up in the
  resolved database; otherwise a path is looked up in the resolved database; otherwise the
  result is a "no identifier provided" error. A not-found error names the identifier and,
  for an id or a path, the database; the spec does not fix its wording further.
\<close>

definition getRecord :: "devonthink \<Rightarrow> lookupOptions \<Rightarrow> lookupResult" where
  "getRecord app opts =
     (case strOrNull (lo_uuid opts) of
        Some u \<Rightarrow>
          (case getRecordWithUuid app u of
             Some h \<Rightarrow> found h
           | None \<Rightarrow> notFound (''Record not found with UUID: '' @ u))
      | None \<Rightarrow>
          (case lo_id opts of
             Some i \<Rightarrow>
               (case lo_database opts of
                  None \<Rightarrow> notFound (''No database for record ID: '' @ showInt i)
                | Some db \<Rightarrow>
                    (case firstMatch (\<lambda>r. r_id r = i \<and> r_database r = db_name db) (records app) of
                       Some h \<Rightarrow> found h
                     | None \<Rightarrow>
                         notFound (''Record not found with ID: '' @ showInt i @
                                   '' in database '' @ db_name db)))
           | None \<Rightarrow>
               (case strOrNull (lo_path opts) of
                  Some p \<Rightarrow>
                    (case lo_database opts of
                       None \<Rightarrow> notFound (''No database for record path: '' @ p)
                     | Some db \<Rightarrow>
                         (case firstMatch (\<lambda>r. r_location r = p \<and> r_database r = db_name db)
                                 (records app) of
                            Some h \<Rightarrow> found h
                          | None \<Rightarrow>
                              notFound (''Record not found at path: '' @ p @
                                        '' in database '' @ db_name db)))
                | None \<Rightarrow> notFound ''No record identifier provided'')))"

text \<open>
  Modelled from the spec: the helper \<open>getDatabase\<close> of \<open>utils/jxaHelpers\<close> is not among the
  sources. Without a name it gives the current database and fails when there is none; with
  a name it gives the first open database of exactly that name and fails with a
  database-not-found error otherwise. A failure is a thrown \<open>Error\<close>; \<open>Inl\<close> carries its
  message.
\<close>

definition getDatabase :: "devonthink \<Rightarrow> string option \<Rightarrow> string + database" where
  "getDatabase app databaseName =
     (case strOrNull databaseName of
        None \<Rightarrow>
          (case currentDatabase app of
             None \<Rightarrow> Inl ''No current database''
           | Some db \<Rightarrow> Inr db)
      | Some n \<Rightarrow>
          (case find (\<lambda>db. db_name db = n) (databases app) of
             None \<Rightarrow> Inl (''Database not found: '' @ n)
           | Some db \<Rightarrow> Inr db))"

section \<open>Results\<close>

text \<open>
  The result object of an operation. \<open>Rejected\<close> is a result the TypeScript function
  returned before it built a script; \<open>Executed\<close> is the result a script printed, with the
  state in which it left the application.
\<close>

record result =
  success :: bool
  error :: "string option"

definition failure :: "string \<Rightarrow> result" where
  "failure msg = \<lparr>success = False, error = Some msg\<rparr>"

definition succeeded :: result where
  "succeeded = \<lparr>success = True, error = None\<rparr>"

datatype 'r outcome = Rejected 'r | Executed 'r devonthink

definition appAfter :: "devonthink \<Rightarrow> 'r outcome \<Rightarrow> devonthink" where
  "appAfter app out = (case out of Rejected r \<Rightarrow> app | Executed r app' \<Rightarrow> app')"

text \<open>The guard \<open>x && !isJXASafeString(x)\<close> on an optional field.\<close>

definition unsafeGiven :: "(string \<Rightarrow> bool) \<Rightarrow> string option \<Rightarrow> bool" where
  "unsafeGiven isJXASafeString x =
     (case x of None \<Rightarrow> False | Some s \<Rightarrow> s \<noteq> [] \<and> \<not> isJXASafeString s)"

section \<open>remove_tags\<close>

text \<open>The script of \<open>removeTags\<close>; its holes are the arguments.\<close>

definition removeTags_script ::
  "string option \<Rightarrow> string list \<Rightarrow> string option \<Rightarrow> devonthink \<Rightarrow> result \<times> devonthink" where
  "removeTags_script pUuid tags pDatabaseName app =
     (let lookupResult =
            getRecord app \<lparr>lo_uuid = pUuid, lo_id = None, lo_path = None, lo_name = None,
                           lo_database = None\<rparr>
      in case lr_record lookupResult of
           None \<Rightarrow>
             (failure (''Record with UUID '' @ orElse pUuid ''unknown'' @ '' not found''), app)
         | Some h \<Rightarrow>
             if truthy pDatabaseName \<and> Some (r_database (snd h)) \<noteq> pDatabaseName
             then (failure (''Record with UUID '' @ orElse pUuid ''unknown'' @
                            '' not found in database '' @ orElse pDatabaseName ''unknown''), app)
             else (succeeded, setTags app h (filter (\<lambda>tag. tag \<notin> set tags) (r_tags (snd h)))))"

definition removeTags_validate ::
  "(string \<Rightarrow> bool) \<Rightarrow> string \<Rightarrow> string list \<Rightarrow> string option \<Rightarrow> string option" where
  "removeTags_validate isJXASafeString uuid tags databaseName =
     (if \<not> isJXASafeString uuid then Some ''UUID contains invalid characters''
      else case find (\<lambda>tag. \<not> isJXASafeString tag) tags of
             Some tag \<Rightarrow> Some (''Tag '' @ dq @ tag @ dq @ '' contains invalid characters'')
           | None \<Rightarrow>
               if unsafeGiven isJXASafeString databaseName
               then Some ''Database name contains invalid characters''
               else None)"

definition removeTags ::
  "(string \<Rightarrow> bool) \<Rightarrow> string \<Rightarrow> string list \<Rightarrow> string option \<Rightarrow> devonthink \<Rightarrow> result outcome" where
  "removeTags isJXASafeString uuid tags databaseName app =
     (case removeTags_validate isJXASafeString uuid tags databaseName of
        Some msg \<Rightarrow> Rejected (failure msg)
      | None \<Rightarrow>
          (case removeTags_script (strOrNull (Some uuid)) tags (strOrNull databaseName) app of
             (r, app') \<Rightarrow> Executed r app'))"

section \<open>rename_record\<close>

text \<open>
  The script of \<open>renameRecord\<close>. After the lookup by UUID it verifies the database when
  one was given. The new name is a string literal, or \<open>null\<close> for an empty name; what the
  application does with a \<open>null\<close> name is its own business, modelled as the scripting
  bridge's refusal to convert the value.
\<close>

definition renameRecord_script ::
  "string option \<Rightarrow> string option \<Rightarrow> string option \<Rightarrow> devonthink \<Rightarrow> result \<times> devonthink" where
  "renameRecord_script pUuid pNewName pDatabaseName app =
     (let lookupResult =
            getRecord app \<lparr>lo_uuid = pUuid, lo_id = None, lo_path = None, lo_name = None,
                           lo_database = None\<rparr>
      in case lr_record lookupResult of
           None \<Rightarrow>
             (failure (''Record with UUID '' @ orElse pUuid ''unknown'' @ '' not found''), app)
         | Some h \<Rightarrow>
             if truthy pDatabaseName \<and> Some (r_database (snd h)) \<noteq> pDatabaseName
             then (failure (''Record with UUID '' @ orElse pUuid ''unknown'' @
                            '' not found in database '' @ orElse pDatabaseName ''unknown''), app)
             else (case pNewName of
                     None \<Rightarrow> (failure (errorToString ''Can't convert types.''), app)
                   | Some n \<Rightarrow> (succeeded, setName app h n)))"

definition renameRecord_validate ::
  "(string \<Rightarrow> bool) \<Rightarrow> string \<Rightarrow> string \<Rightarrow> string option \<Rightarrow> string option" where
  "renameRecord_validate isJXASafeString uuid newName databaseName =
     (if \<not> isJXASafeString uuid then Some ''UUID contains invalid characters''
      else if \<not> isJXASafeString newName then Some ''New name contains invalid characters''
      else if unsafeGiven isJXASafeString databaseName
      then Some ''Database name contains invalid characters''
      else None)"

definition renameRecord ::
  "(string \<Rightarrow> bool) \<Rightarrow> string \<Rightarrow> string \<Rightarrow> string option \<Rightarrow> devonthink \<Rightarrow> result outcome" where
  "renameRecord isJXASafeString uuid newName databaseName app =
     (case renameRecord_validate isJXASafeString uuid newName databaseName of
        Some msg \<Rightarrow> Rejected (failure msg)
      | None \<Rightarrow>
          (case renameRecord_script (strOrNull (Some uuid)) (strOrNull (Some newName))
                  (strOrNull databaseName) app of
             (r, app') \<Rightarrow> Executed r app'))"

section \<open>get_record_by_identifier\<close>

text \<open>
  The result carries the properties the script reads off the record it resolved; they are
  all data of the record, so the model returns the record's data, with the name of the
  database the script took them from.
\<close>

record recordResult = result +
  rr_record :: "dtrecord option"

definition recordFailure :: "string \<Rightarrow> recordResult" where
  "recordFailure msg = \<lparr>success = False, error = Some msg, rr_record = None\<rparr>"

text \<open>
  When neither branch of the script binds \<open>targetRecord\<close>, reading a property of it throws
  a \<open>TypeError\<close>, which the script's \<open>catch\<close> turns into a failure; the wording is the
  engine's.
\<close>

definition undefinedTargetRecord :: string where
  "undefinedTargetRecord =
     ''TypeError: undefined is not an object (evaluating '' @ sq @ ''targetRecord.id'' @ sq @ '')''"

text \<open>
  The script of \<open>getRecordByIdentifier\<close>. The UUID branch passes \<open>getRecord\<close> the UUID
  alone and takes the database from the record it found. The other branch needs a non-zero
  id and a database name.
\<close>

definition getRecordByIdentifier_script ::
  "string option \<Rightarrow> int option \<Rightarrow> string option \<Rightarrow> devonthink \<Rightarrow> recordResult" where
  "getRecordByIdentifier_script pUuid pId pDatabaseName app =
     (if truthy pUuid then
        (case lr_record (getRecord app \<lparr>lo_uuid = pUuid, lo_id = None, lo_path = None,
                                         lo_name = None, lo_database = None\<rparr>) of
           None \<Rightarrow> recordFailure (''Record with UUID '' @ orElse pUuid ''unknown'' @ '' not found'')
         | Some h \<Rightarrow>
             \<lparr>success = True, error = None,
              rr_record = Some ((snd h)\<lparr>r_database := r_database (snd h)\<rparr>)\<rparr>)
      else if numTruthy pId \<and> truthy pDatabaseName then
        (case getDatabase app pDatabaseName of
           Inl msg \<Rightarrow> recordFailure (errorToString msg)
         | Inr targetDatabase \<Rightarrow>
             (case lr_record (getRecord app \<lparr>lo_uuid = None, lo_id = pId, lo_path = None,
                                              lo_name = None,
                                              lo_database = Some targetDatabase\<rparr>) of
                None \<Rightarrow>
                  recordFailure (''Record with ID '' @ showNum pId @ '' not found in database '' @
                                 sq @ orElse pDatabaseName ''unknown'' @ sq)
              | Some h \<Rightarrow>
                  \<lparr>success = True, error = None,
                   rr_record = Some ((snd h)\<lparr>r_database := db_name targetDatabase\<rparr>)\<rparr>))
      else recordFailure undefinedTargetRecord)"

definition getRecordByIdentifier_validate ::
  "(string \<Rightarrow> bool) \<Rightarrow> string option \<Rightarrow> string option \<Rightarrow> string option" where
  "getRecordByIdentifier_validate isJXASafeString uuid databaseName =
     (if unsafeGiven isJXASafeString uuid then Some ''UUID contains invalid characters''
      else if unsafeGiven isJXASafeString databaseName
      then Some ''Database name contains invalid characters''
      else None)"

definition getRecordByIdentifier ::
  "(string \<Rightarrow> bool) \<Rightarrow> string option \<Rightarrow> int option \<Rightarrow> string option \<Rightarrow> devonthink \<Rightarrow>
   recordResult outcome" where
  "getRecordByIdentifier isJXASafeString uuid id' databaseName app =
     (case getRecordByIdentifier_validate isJXASafeString uuid databaseName of
        Some msg \<Rightarrow> Rejected (recordFailure msg)
      | None \<Rightarrow>
          Executed (getRecordByIdentifier_script (strOrNull uuid) id' (strOrNull databaseName) app) app)"

section \<open>move_record\<close>

record moveResult = result +
  newLocation :: "string option"

definition moveFailure :: "string \<Rightarrow> moveResult" where
  "moveFailure msg = \<lparr>success = False, error = Some msg, newLocation = None\<rparr>"

text \<open>
  The application's \<open>move\<close> command is a parameter: from the state, the record and the
  destination it gives the new state and either the text of the error it threw, or no
  record, or the moved record.
\<close>

type_synonym moveCommand =
  "devonthink \<Rightarrow> handle \<Rightarrow> handle \<Rightarrow> (string + dtrecord option) \<times> devonthink"

text \<open>
  The script of \<open>moveRecord\<close>. A thrown error leaves the \<open>try\<close> block and becomes the
  failure \<open>error.toString()\<close>.
\<close>

definition moveRecord_script ::
  "moveCommand \<Rightarrow> string option \<Rightarrow> string option \<Rightarrow> int option \<Rightarrow> string option \<Rightarrow>
   string option \<Rightarrow> string option \<Rightarrow> devonthink \<Rightarrow> moveResult \<times> devonthink" where
  "moveRecord_script move pDatabaseName pUuid pRecordId pRecordPath pRecordName
       pDestinationGroupUuid app =
     (case getDatabase app pDatabaseName of
        Inl msg \<Rightarrow> (moveFailure (errorToString msg), app)
      | Inr targetDatabase \<Rightarrow>
          (let lookupResult =
                 getRecord app \<lparr>lo_uuid = pUuid, lo_id = pRecordId, lo_path = pRecordPath,
                                lo_name = pRecordName, lo_database = Some targetDatabase\<rparr>
           in case lr_record lookupResult of
                None \<Rightarrow>
                  (moveFailure
                     (if numTruthy pRecordId
                      then ''Record with ID '' @ showNum pRecordId @ '' not found in database '' @
                           sq @ db_name targetDatabase @ sq
                      else orElse (lr_error lookupResult) ''Record not found''), app)
              | Some targetRecord \<Rightarrow>
                  (case (case pDestinationGroupUuid of
                           None \<Rightarrow> None
                         | Some d \<Rightarrow> if d = [] then None else getRecordWithUuid app d) of
                     None \<Rightarrow>
                       (moveFailure (errorToString (''Destination group with UUID not found: '' @
                                       orElse pDestinationGroupUuid ''unknown'')), app)
                   | Some destinationGroupRecord \<Rightarrow>
                       (let destType = r_recordType (snd destinationGroupRecord)
                        in if destType \<noteq> ''group'' \<and> destType \<noteq> ''smart group''
                           then (moveFailure (errorToString
                                   (''Destination is not a group. Record type: '' @ destType)), app)
                           else (case move app targetRecord destinationGroupRecord of
                                   (Inl thrown, app') \<Rightarrow> (moveFailure thrown, app')
                                 | (Inr None, app') \<Rightarrow> (moveFailure ''Failed to move record'', app')
                                 | (Inr (Some moveResult), app') \<Rightarrow>
                                     (\<lparr>success = True, error = None,
                                       newLocation = Some (r_location moveResult)\<rparr>, app'))))))"

definition moveRecord_validate ::
  "(string \<Rightarrow> bool) \<Rightarrow> string option \<Rightarrow> string option \<Rightarrow> string option \<Rightarrow> string option \<Rightarrow>
   string option \<Rightarrow> string option" where
  "moveRecord_validate isJXASafeString uuid recordName recordPath destinationGroupUuid databaseName =
     (if unsafeGiven isJXASafeString uuid then Some ''UUID contains invalid characters''
      else if unsafeGiven isJXASafeString recordName
      then Some ''Record name contains invalid characters''
      else if unsafeGiven isJXASafeString recordPath
      then Some ''Record path contains invalid characters''
      else if unsafeGiven isJXASafeString destinationGroupUuid
      then Some ''Destination UUID contains invalid characters''
      else if unsafeGiven isJXASafeString databaseName
      then Some ''Database name contains invalid characters''
      else None)"

definition moveRecord ::
  "(string \<Rightarrow> bool) \<Rightarrow> moveCommand \<Rightarrow> string option \<Rightarrow> int option \<Rightarrow> string option \<Rightarrow>
   string option \<Rightarrow> string option \<Rightarrow> string option \<Rightarrow> devonthink \<Rightarrow> moveResult outcome" where
  "moveRecord isJXASafeString move uuid recordId recordName recordPath destinationGroupUuid
       databaseName app =
     (case moveRecord_validate isJXASafeString uuid recordName recordPath destinationGroupUuid
             databaseName of
        Some msg \<Rightarrow> Rejected (moveFailure msg)
      | None \<Rightarrow>
          (case moveRecord_script move (strOrNull databaseName) (strOrNull uuid) recordId
                  (strOrNull recordPath) (strOrNull recordName)
                  (strOrNull destinationGroupUuid) app of
             (r, app') \<Rightarrow> Executed r app'))"

section \<open>delete_record\<close>

text \<open>
  The application's \<open>delete\<close> command is a parameter: it gives the new state and either
  the text of the error it threw or the boolean it returned.
\<close>

type_synonym deleteCommand = "devonthink \<Rightarrow> handle \<Rightarrow> (string + bool) \<times> devonthink"

text \<open>
  The script of \<open>deleteRecord\<close>. Its last statement serialises an object whose only key is
  \<open>success\<close>, bound to what \<open>delete\<close> returned.
\<close>

definition deleteRecord_script ::
  "deleteCommand \<Rightarrow> string option \<Rightarrow> string option \<Rightarrow> int option \<Rightarrow> string option \<Rightarrow>
   devonthink \<Rightarrow> result \<times> devonthink" where
  "deleteRecord_script delete pDatabaseName pUuid pRecordId pRecordPath app =
     (case getDatabase app pDatabaseName of
        Inl msg \<Rightarrow> (failure (errorToString msg), app)
      | Inr targetDatabase \<Rightarrow>
          (let lookupResult =
                 getRecord app \<lparr>lo_uuid = pUuid, lo_id = pRecordId, lo_path = pRecordPath,
                                lo_name = None, lo_database = Some targetDatabase\<rparr>
           in case lr_record lookupResult of
                None \<Rightarrow>
                  (failure
                     (if numTruthy pRecordId
                      then ''Record with ID '' @ showNum pRecordId @ '' not found in database '' @
                           sq @ db_name targetDatabase @ sq
                      else if truthy pUuid
                      then ''Record with UUID '' @ orElse pUuid ''unknown'' @ '' not found''
                      else if truthy pRecordPath
                      then ''Record at DEVONthink location path '' @ orElse pRecordPath ''unknown'' @
                           '' not found''
                      else orElse (lr_error lookupResult) ''Record not found''), app)
              | Some targetRecord \<Rightarrow>
                  (case delete app targetRecord of
                     (Inl thrown, app') \<Rightarrow> (failure thrown, app')
                   | (Inr deleteResult, app') \<Rightarrow> (\<lparr>success = deleteResult, error = None\<rparr>, app'))))"

definition deleteRecord_validate ::
  "(string \<Rightarrow> bool) \<Rightarrow> string option \<Rightarrow> string option \<Rightarrow> string option \<Rightarrow> string option" where
  "deleteRecord_validate isJXASafeString uuid recordPath databaseName =
     (if unsafeGiven isJXASafeString uuid then Some ''UUID contains invalid characters''
      else if unsafeGiven isJXASafeString recordPath
      then Some ''Record path contains invalid characters''
      else if unsafeGiven isJXASafeString databaseName
      then Some ''Database name contains invalid characters''
      else None)"

definition deleteRecord ::
  "(string \<Rightarrow> bool) \<Rightarrow> deleteCommand \<Rightarrow> string option \<Rightarrow> int option \<Rightarrow> string option \<Rightarrow>
   string option \<Rightarrow> devonthink \<Rightarrow> result outcome" where
  "deleteRecord isJXASafeString delete uuid recordId recordPath databaseName app =
     (case deleteRecord_validate isJXASafeString uuid recordPath databaseName of
        Some msg \<Rightarrow> Rejected (failure msg)
      | None \<Rightarrow>
          (case deleteRecord_script delete (strOrNull databaseName) (strOrNull uuid) recordId
                  (strOrNull recordPath) app of
             (r, app') \<Rightarrow> Executed r app'))"

section \<open>search\<close>

text \<open>
  \<open>xs.slice(0, n)\<close> for an integer \<open>n\<close>: a negative end counts from the end of the array,
  and an end beyond the array is the array's length.
\<close>

definition slice0 :: "int \<Rightarrow> 'a list \<Rightarrow> 'a list" where
  "slice0 n xs = (if n < 0 then take (nat (int (length xs) + n)) xs else take (nat n) xs)"

record searchInput =
  si_query :: string
  si_groupUuid :: "string option"
  si_groupId :: "int option"
  si_groupPath :: "string option"
  si_databaseName :: "string option"
  si_useCurrentGroup :: "bool option"
  si_recordType :: "string option"
  si_comparison :: "string option"
  si_excludeSubgroups :: "bool option"
  si_limit :: "int option"

record searchResult = result +
  results :: "dtrecord list option"
  totalCount :: "nat option"

definition searchFailure :: "string \<Rightarrow> searchResult" where
  "searchFailure msg = \<lparr>success = False, error = Some msg, results = None, totalCount = None\<rparr>"

datatype searchScope = InRecord handle | InDatabase database | InRoot database

record searchOptions =
  so_in :: "searchScope option"
  so_comparison :: "string option"
  so_excludeSubgroups :: "bool option"

text \<open>
  What the script takes from outside the repository's sources: the application's \<open>search\<close>
  command (the text of the error it threw, or the records it found; no result counts as
  no records), the injected helpers \<open>isGroup\<close> and \<open>isVersion41OrLater\<close>, and the string
  that the literal made by \<open>escapeSearchQuery\<close> denotes.
\<close>

record searchEnv =
  se_search :: "devonthink \<Rightarrow> string \<Rightarrow> searchOptions \<Rightarrow> string + dtrecord list"
  se_isGroup :: "dtrecord \<Rightarrow> bool"
  se_isVersion41OrLater :: bool
  se_escapeSearchQuery :: "string \<Rightarrow> string"

text \<open>The first part of the script: the scope of the search, or the failure it returns.\<close>

definition search_scope ::
  "searchEnv \<Rightarrow> string option \<Rightarrow> int option \<Rightarrow> string option \<Rightarrow> database \<Rightarrow> bool \<Rightarrow>
   devonthink \<Rightarrow> string + searchScope" where
  "search_scope env pGroupUuid pGroupId pGroupPath targetDatabase pUseCurrentGroup app =
     (if pUseCurrentGroup then
        (case currentGroup app of
           None \<Rightarrow> Inl ''No group is currently selected in DEVONthink''
         | Some searchScope \<Rightarrow>
             if \<not> se_isGroup env (snd searchScope)
             then Inl (''Current selection is not a group. Type: '' @ r_recordType (snd searchScope))
             else Inr (InRecord searchScope))
      else if truthy pGroupUuid \<or> numTruthy pGroupId \<or> truthy pGroupPath then
        (let lookupResult =
               getRecord app \<lparr>lo_uuid = pGroupUuid, lo_id = pGroupId, lo_path = pGroupPath,
                              lo_name = None, lo_database = Some targetDatabase\<rparr>
         in case lr_record lookupResult of
              None \<Rightarrow>
                Inl (if truthy pGroupUuid
                     then ''Group with UUID not found: '' @ orElse pGroupUuid []
                     else if numTruthy pGroupId
                     then ''Group with ID '' @ showNum pGroupId @ '' not found in database '' @
                          sq @ db_name targetDatabase @ sq
                     else if truthy pGroupPath
                     then ''Group at path not found: '' @ orElse pGroupPath []
                     else orElse (lr_error lookupResult) ''Group not found'')
            | Some searchScope \<Rightarrow>
                if \<not> se_isGroup env (snd searchScope)
                then Inl (''Specified record is not a group. Type: '' @ r_recordType (snd searchScope))
                else Inr (InRecord searchScope))
      else Inr (if se_isVersion41OrLater env then InRoot targetDatabase
                else InDatabase targetDatabase))"

text \<open>
  The second part of the script: the filter by record type, the slice and the result. The
  entries of \<open>results\<close> are the properties read off each record, which are the record's
  data.
\<close>

definition search_results :: "string option \<Rightarrow> int \<Rightarrow> dtrecord list \<Rightarrow> searchResult" where
  "search_results pRecordType pLimit searchResults =
     (if searchResults = [] then
        \<lparr>success = True, error = None, results = Some [], totalCount = Some 0\<rparr>
      else
        (let filteredResults =
               (if truthy pRecordType
                then filter (\<lambda>record. Some (r_recordType record) = pRecordType) searchResults
                else searchResults);
             limitedResults = slice0 pLimit filteredResults
         in \<lparr>success = True, error = None, results = Some limitedResults,
             totalCount = Some (length filteredResults)\<rparr>))"

definition search_script ::
  "searchEnv \<Rightarrow> string \<Rightarrow> string option \<Rightarrow> int option \<Rightarrow> string option \<Rightarrow> string option \<Rightarrow>
   bool \<Rightarrow> string option \<Rightarrow> string option \<Rightarrow> bool option \<Rightarrow> int \<Rightarrow> devonthink \<Rightarrow> searchResult" where
  "search_script env escapedQuery pGroupUuid pGroupId pGroupPath pDatabaseName pUseCurrentGroup
       pRecordType pComparison pExcludeSubgroups pLimit app =
     (case getDatabase app pDatabaseName of
        Inl msg \<Rightarrow> searchFailure (errorToString msg)
      | Inr targetDatabase \<Rightarrow>
          (case search_scope env pGroupUuid pGroupId pGroupPath targetDatabase pUseCurrentGroup app of
             Inl msg \<Rightarrow> searchFailure msg
           | Inr searchScope \<Rightarrow>
               (case se_search env app escapedQuery
                       \<lparr>so_in = Some searchScope,
                        so_comparison = (if truthy pComparison then pComparison else None),
                        so_excludeSubgroups = pExcludeSubgroups\<rparr> of
                  Inl thrown \<Rightarrow> searchFailure (''Error executing search: '' @ thrown)
                | Inr searchResults \<Rightarrow> search_results pRecordType pLimit searchResults)))"

definition search_validate :: "(string \<Rightarrow> bool) \<Rightarrow> searchInput \<Rightarrow> string option" where
  "search_validate isJXASafeString input =
     (if \<not> isJXASafeString (si_query input) then Some ''Search query contains invalid characters''
      else if unsafeGiven isJXASafeString (si_groupUuid input)
      then Some ''Group UUID contains invalid characters''
      else if unsafeGiven isJXASafeString (si_groupPath input)
      then Some ''Group path contains invalid characters''
      else if unsafeGiven isJXASafeString (si_databaseName input)
      then Some ''Database name contains invalid characters''
      else None)"

text \<open>The TypeScript function: \<open>limit\<close> defaults to 50 when the caller leaves it out.\<close>

definition search ::
  "(string \<Rightarrow> bool) \<Rightarrow> searchEnv \<Rightarrow> searchInput \<Rightarrow> devonthink \<Rightarrow> searchResult outcome" where
  "search isJXASafeString env input app =
     (case search_validate isJXASafeString input of
        Some msg \<Rightarrow> Rejected (searchFailure msg)
      | None \<Rightarrow>
          (let limit = (case si_limit input of None \<Rightarrow> 50 | Some l \<Rightarrow> l)
           in Executed
                (search_script env (se_escapeSearchQuery env (si_query input))
                   (strOrNull (si_groupUuid input)) (si_groupId input)
                   (strOrNull (si_groupPath input)) (strOrNull (si_databaseName input))
                   (si_useCurrentGroup input = Some True) (si_recordType input)
                   (si_comparison input) (si_excludeSubgroups input) limit app)
                app))"

section \<open>lookup_record and create_record\<close>









record recordProps =
  rp_name :: string
  rp_type :: string
  rp_content :: "string option"
  rp_URL :: "string option"






section \<open>The text of the scripts\<close>

text \<open>
  A template literal is a sequence of fragments: the fixed text of the template, a
  caller's string put into the text as it is, and a caller's string put in through
  \<open>escapeStringForJXA\<close>. The escaper is not among the sources; rendering takes it as a
  parameter.
\<close>

datatype fragment = Lit string | Raw string | Escaped string

fun renderFragment :: "(string \<Rightarrow> string) \<Rightarrow> fragment \<Rightarrow> string" where
  "renderFragment escapeStringForJXA (Lit s) = s"
| "renderFragment escapeStringForJXA (Raw s) = s"
| "renderFragment escapeStringForJXA (Escaped s) = escapeStringForJXA s"

definition render :: "(string \<Rightarrow> string) \<Rightarrow> fragment list \<Rightarrow> string" where
  "render escapeStringForJXA fs = concat (map (renderFragment escapeStringForJXA) fs)"

text \<open>The lines of a template, with the line breaks between them.\<close>

fun joinLines :: "fragment list list \<Rightarrow> fragment list" where
  "joinLines [] = []"
| "joinLines [l] = l"
| "joinLines (l # ls) = l @ Lit newline # joinLines ls"

text \<open>\<open>${x}\<close> of an optional string: an absent one is rendered as \<open>undefined\<close>.\<close>

definition interpolate :: "string option \<Rightarrow> string" where
  "interpolate x = (case x of None \<Rightarrow> ''undefined'' | Some s \<Rightarrow> s)"

text \<open>\<open>${x || ""}\<close> of an optional string.\<close>

definition orEmpty :: "string option \<Rightarrow> string" where
  "orEmpty x = (case x of None \<Rightarrow> [] | Some s \<Rightarrow> s)"

text \<open>\<open>content.replace(/`/g, "\\`")\<close>: a backslash before every backtick.\<close>

definition escapeBackticks :: "string \<Rightarrow> string" where
  "escapeBackticks s = concat (map (\<lambda>c. if c = CHR 0x60 then [CHR 0x5C, CHR 0x60] else [c]) s)"

text \<open>The template of \<open>createRecord\<close>, line by line.\<close>

definition createRecord_template ::
  \<open>string \<Rightarrow> string \<Rightarrow> string option \<Rightarrow> string option \<Rightarrow> string option \<Rightarrow> string option \<Rightarrow>
   fragment list\<close> where
  \<open>createRecord_template name type content url parentGroupUuid databaseName =
     joinLines [
        [],
        [Lit ''    (() => {''],
        [Lit ''      const theApp = Application("DEVONthink");''],
        [Lit ''      theApp.includeStandardAdditions = true;''],
        [Lit ''      ''],
        [Lit ''      try {''],
        [Lit ''        let targetDatabase;''],
        [Lit ''        if ("'', Raw (orEmpty databaseName), Lit ''") {''],
        [Lit ''          const databases = theApp.databases();''],
        [Lit ''          targetDatabase = databases.find(db => db.name() === "'',
           Raw (interpolate databaseName), Lit ''");''],
        [Lit ''          if (!targetDatabase) {''],
        [Lit ''            throw new Error("Database not found: '', Raw (interpolate databaseName),
           Lit ''");''],
        [Lit ''          }''],
        [Lit ''        } else {''],
        [Lit ''          targetDatabase = theApp.currentDatabase();''],
        [Lit ''        }''],
        [Lit ''''],
        [Lit ''        // Get the parent group''],
        [Lit ''        let destinationGroup;''],
        [Lit ''        if ("'', Raw (orEmpty parentGroupUuid), Lit ''") {''],
        [Lit ''          destinationGroup = theApp.getRecordWithUuid("'',
           Raw (interpolate parentGroupUuid), Lit ''");''],
        [Lit ''          if (!destinationGroup) {''],
        [Lit ''            throw new Error("Parent group with UUID not found: '',
           Raw (interpolate parentGroupUuid), Lit ''");''],
        [Lit ''          }''],
        [Lit ''        } else {''],
        [Lit ''          destinationGroup = targetDatabase.incomingGroup();''],
        [Lit ''        }''],
        [Lit ''        ''],
        [Lit ''        // Create the record properties''],
        [Lit ''        const recordProps = {''],
        [Lit ''          name: "'', Raw name, Lit ''",''],
        [Lit ''          type: "'', Raw type, Lit ''"''],
        [Lit ''        };''],
        [Lit ''        ''],
        [Lit ''        // Add content if provided''],
        Lit ''        '' #
          (if truthy content
           then [Lit (''recordProps.content = '' @ [CHR 0x60]),
                 Raw (escapeBackticks (orEmpty content)), Lit ([CHR 0x60] @ '';'')]
           else []),
        [Lit ''        ''],
        [Lit ''        // Add URL if provided''],
        Lit ''        '' #
          (if truthy url then [Lit ''recordProps.URL = "'', Raw (orEmpty url), Lit ''";''] else []),
        [Lit ''        ''],
        [Lit ''        // Create the record''],
        [Lit ''        const newRecord = theApp.createRecordWith(recordProps, { in: destinationGroup });''],
        [Lit ''        ''],
        [Lit ''        if (newRecord) {''],
        [Lit ''          return JSON.stringify({''],
        [Lit ''            success: true,''],
        [Lit ''            recordId: newRecord.id(),''],
        [Lit ''            name: newRecord.name(),''],
        [Lit ''            uuid: newRecord.uuid()''],
        [Lit ''          });''],
        [Lit ''        } else {''],
        [Lit ''          return JSON.stringify({''],
        [Lit ''            success: false,''],
        [Lit ''            error: "Failed to create record"''],
        [Lit ''          });''],
        [Lit ''        }''],
        [Lit ''      } catch (error) {''],
        [Lit ''        return JSON.stringify({''],
        [Lit ''          success: false,''],
        [Lit ''          error: error.toString()''],
        [Lit ''        });''],
        [Lit ''      }''],
        [Lit ''    })();''],
        [Lit ''  '']]\<close>

text \<open>The script of \<open>isRunning\<close>, which has no holes.\<close>

definition isRunning_script :: string where
  \<open>isRunning_script =
     render id (joinLines [
        [],
        [Lit ''    const app = Application("DEVONthink");''],
        [Lit ''    const isRunning = app.running();''],
        [Lit ''    JSON.stringify({ isRunning });''],
        [Lit ''  '']])\<close>

text \<open>
  \<open>buildDatabaseLookup\<close> of \<open>DevonThinkTool\<close>: the code that resolves a database for the
  tools built on that class. The name goes through the escaper.
\<close>

definition buildDatabaseLookup :: \<open>string option \<Rightarrow> fragment list\<close> where
  \<open>buildDatabaseLookup databaseName =
     (if \<not> truthy databaseName then [Lit ''const targetDatabase = theApp.currentDatabase();'']
      else joinLines [
        [],
        [Lit ''      const databases = theApp.databases();''],
        [Lit ''      const targetDatabase = databases.find(db => db.name() === "'',
           Escaped (orEmpty databaseName), Lit ''");''],
        [Lit ''      if (!targetDatabase) {''],
        [Lit ''        throw new Error("Database not found: '', Escaped (orEmpty databaseName),
           Lit ''");''],
        [Lit ''      }''],
        [Lit ''    '']])\<close>

text \<open>A fragment that is not a caller's string put in as it is.\<close>

fun treated :: "fragment \<Rightarrow> bool" where
  "treated (Lit s) = True"
| "treated (Raw s) = False"
| "treated (Escaped s) = True"

section \<open>lookup_record and create_record as they are called\<close>









section \<open>The value formatter\<close>

text \<open>
  \<open>formatValue\<close> of \<open>DevonThinkTool\<close> writes a number as \<open>String(value)\<close>. A number
  enters the model as the parts of that rendering, which for every JavaScript number is
  \<open>NaN\<close>, \<open>Infinity\<close> with or without a minus sign, or a decimal numeral: an optional
  minus sign, the digits of the whole part, optionally a point and the digits of the
  fraction, and optionally an exponent with its sign (as in \<open>0.7\<close>, \<open>-12\<close> and \<open>1e+21\<close>).
  The datatype holds every such rendering, and some no number has.
\<close>

datatype jsnumber =
    Decimal bool nat "nat list" "int option"
  | NotANumber
  | Infinite bool

definition digit :: "nat \<Rightarrow> char" where
  "digit d = char_of (48 + d mod 10)"

text \<open>\<open>String(value)\<close> of a number.\<close>

fun numberToString :: "jsnumber \<Rightarrow> string" where
  "numberToString (Decimal negative whole fraction exponent) =
     (if negative then ''-'' else []) @ showNat whole @
     (if fraction = [] then [] else ''.'' @ map digit fraction) @
     (case exponent of
        None \<Rightarrow> []
      | Some e \<Rightarrow> (if e < 0 then ''e-'' else ''e+'') @ showNat (nat \<bar>e\<bar>))"
| "numberToString NotANumber = ''NaN''"
| "numberToString (Infinite negative) = (if negative then ''-Infinity'' else ''Infinity'')"

text \<open>
  The values \<open>formatValue\<close> is given: JSON-like data. (Its last branch, \<open>JSON.stringify\<close>
  for a value of any other type, is not reached by such data.)
\<close>

datatype jsvalue =
    JNull
  | JUndefined
  | JString string
  | JNumber jsnumber
  | JBool bool
  | JArray "jsvalue list"
  | JObject "(string \<times> jsvalue) list"

text \<open>\<open>xs.join(sep)\<close>.\<close>

fun join :: "string \<Rightarrow> string list \<Rightarrow> string" where
  "join sep [] = []"
| "join sep [x] = x"
| "join sep (x # xs) = x @ sep @ join sep xs"

text \<open>
  \<open>formatValue\<close>: \<open>null\<close> for an absent value, a quoted escaped literal for a string, the
  token of a number or a boolean, a bracketed list for an array, and for an object a
  function that declares \<open>obj\<close>, assigns every key in brackets and returns \<open>obj\<close>, called
  on the spot. The escaper is not among the sources and is a parameter.
\<close>

fun formatValue :: "(string \<Rightarrow> string) \<Rightarrow> jsvalue \<Rightarrow> string" where
  "formatValue escapeStringForJXA JNull = ''null''"
| "formatValue escapeStringForJXA JUndefined = ''null''"
| "formatValue escapeStringForJXA (JString s) = dq @ escapeStringForJXA s @ dq"
| "formatValue escapeStringForJXA (JNumber n) = numberToString n"
| "formatValue escapeStringForJXA (JBool b) = (if b then ''true'' else ''false'')"
| "formatValue escapeStringForJXA (JArray vs) =
     ''['' @ join '', '' (map (formatValue escapeStringForJXA) vs) @ '']''"
| "formatValue escapeStringForJXA (JObject kvs) =
     ''(function() { '' @
     join '' '' (''const obj = {};'' #
                 map (\<lambda>kv. ''obj['' @ dq @ escapeStringForJXA (fst kv) @ dq @ ''] = '' @
                           formatValue escapeStringForJXA (snd kv) @ '';'') kvs) @
     '' return obj; })()''"

text \<open>
  How JavaScript reads the double-quoted string literals of a text. Reading is in one of
  three modes: in the code, inside a string literal, and right after a backslash inside a
  string literal. A double quote in the code opens a literal; inside a literal a backslash
  takes the next character with it, and a double quote that no backslash took closes the
  literal. \<open>codeOf\<close> is what is left of the text when the contents of its string literals
  are dropped, the quotes kept; \<open>modeAfter\<close> is the mode in which the text ends.
\<close>

datatype lexmode = Code | InString | AfterBackslash

fun codeOf :: "lexmode \<Rightarrow> string \<Rightarrow> string" where
  "codeOf m [] = []"
| "codeOf Code (c # cs) = (if c = CHR 0x22 then c # codeOf InString cs else c # codeOf Code cs)"
| "codeOf InString (c # cs) =
     (if c = CHR 0x5C then codeOf AfterBackslash cs
      else if c = CHR 0x22 then c # codeOf Code cs
      else codeOf InString cs)"
| "codeOf AfterBackslash (c # cs) = codeOf InString cs"

fun modeAfter :: "lexmode \<Rightarrow> string \<Rightarrow> lexmode" where
  "modeAfter m [] = m"
| "modeAfter Code (c # cs) = (if c = CHR 0x22 then modeAfter InString cs else modeAfter Code cs)"
| "modeAfter InString (c # cs) =
     (if c = CHR 0x5C then modeAfter AfterBackslash cs
      else if c = CHR 0x22 then modeAfter Code cs
      else modeAfter InString cs)"
| "modeAfter AfterBackslash (c # cs) = modeAfter InString cs"

text \<open>
  A text that can stand between the quotes of a string literal and stay inside it: read
  from inside a literal it never closes the literal and does not end on a backslash that
  would take the closing quote. This is what the spec asks of the escaper's output.
\<close>

definition literalBody :: "string \<Rightarrow> bool" where
  "literalBody body = (modeAfter InString body = InString \<and> codeOf InString body = [])"

text \<open>
  An opening brace of a piece of code opens the body of a \<open>function()\<close> or is closed at
  once, as in the empty object \<open>{}\<close>; \<open>before\<close> is the code that precedes the piece. An
  object literal that has a key has an opening brace of neither kind.
\<close>

fun bracesOk :: "string \<Rightarrow> string \<Rightarrow> bool" where
  "bracesOk before [] = True"
| "bracesOk before (c # cs) =
     ((c \<noteq> CHR ''{'' \<or> prefix ''}'' cs \<or> suffix ''function() '' before) \<and>
      bracesOk (before @ [c]) cs)"

text \<open>
  A text with no object literal that has a key: its string literals are all closed, and
  outside them every opening brace opens a function body or the empty object.
\<close>

definition noKeyedObjectLiteral :: "string \<Rightarrow> bool" where
  "noKeyedObjectLiteral text = (modeAfter Code text = Code \<and> bracesOk [] (codeOf Code text))"

text \<open>
  The shape the spec asks of a formatted value, in its words: the absence token, a quoted
  literal, a number or boolean token, a bracketed comma-joined sequence of such
  expressions, or a self-invoking block that declares an empty object, assigns each key by
  bracket assignment and returns the bound identifier. What stands between quotes, as a
  string or as a key, is the body of a literal. There is no rule for an object literal.
\<close>

inductive declareAssignReturn :: "string \<Rightarrow> bool" where
  absent: "declareAssignReturn ''null''"
| quoted: "literalBody body \<Longrightarrow> declareAssignReturn (dq @ body @ dq)"
| number: "declareAssignReturn (numberToString n)"
| boolean: "declareAssignReturn (if b then ''true'' else ''false'')"
| sequence:
    "list_all declareAssignReturn es \<Longrightarrow> declareAssignReturn (''['' @ join '', '' es @ '']'')"
| block:
    "list_all literalBody (map fst assignments) \<Longrightarrow>
     list_all declareAssignReturn (map snd assignments) \<Longrightarrow>
     declareAssignReturn
       (''(function() { '' @
        join '' '' (''const obj = {};'' #
                    map (\<lambda>a. ''obj['' @ dq @ fst a @ dq @ ''] = '' @ snd a @ '';'') assignments) @
        '' return obj; })()'')"

text \<open>A script that hands \<open>JSON.stringify\<close> an object literal as its result.\<close>

definition serialisesObjectLiteral :: "string \<Rightarrow> bool" where
  "serialisesObjectLiteral script = sublist ''JSON.stringify({'' script"

section \<open>The tool dispatcher\<close>

text \<open>
  The handler of \<open>CallToolRequestSchema\<close> in \<open>createServer\<close>. A tool has a name and, when
  it is well formed, a \<open>run\<close> function; running a tool acts on the world (it runs a script)
  and returns a result or throws. The handler returns the result as content or throws an
  \<open>McpError\<close>.
\<close>

datatype errorCode = MethodNotFound | InternalError

datatype mcpError = McpError errorCode string

datatype thrown = ThrownMcpError mcpError | ThrownOther string

record ('a, 'w, 'r) tool =
  t_name :: string
  t_run :: "('a \<Rightarrow> 'w \<Rightarrow> (thrown + 'r) \<times> 'w) option"

definition callTool ::
  "('a, 'w, 'r) tool list \<Rightarrow> 'a \<Rightarrow> string \<Rightarrow> 'a option \<Rightarrow> 'w \<Rightarrow> (mcpError + 'r) \<times> 'w" where
  "callTool tools emptyArguments name arguments world =
     (let args = (case arguments of None \<Rightarrow> emptyArguments | Some a \<Rightarrow> a)
      in case find (\<lambda>t. t_name t = name) tools of
           None \<Rightarrow> (Inl (McpError MethodNotFound (''Unknown tool: '' @ name)), world)
         | Some tool \<Rightarrow>
             (case t_run tool of
                None \<Rightarrow>
                  (Inl (McpError InternalError
                          (''Tool '' @ sq @ name @ sq @ '' has no run function.'')), world)
              | Some run \<Rightarrow>
                  (case run args world of
                     (Inr result, world') \<Rightarrow> (Inr result, world')
                   | (Inl (ThrownMcpError e), world') \<Rightarrow> (Inl e, world')
                   | (Inl (ThrownOther message), world') \<Rightarrow>
                       (Inl (McpError InternalError message), world'))))"

text \<open>The names of the tools in the table of \<open>createServer\<close>, in its order.\<close>

definition toolNames :: "string list" where
  "toolNames =
     [''is_running'', ''create_record'', ''delete_record'', ''move_record'',
      ''get_record_properties'', ''get_record_by_identifier'', ''search'', ''lookup_record'',
      ''create_from_url'', ''get_open_databases'', ''current_database'', ''selected_records'',
      ''list_group_content'', ''get_record_content'', ''rename_record'', ''add_tags'',
      ''remove_tags'', ''classify'', ''compare'', ''replicate_record'', ''duplicate_record'',
      ''convert_record'', ''update_record_content'', ''set_record_properties'',
      ''ask_ai_about_documents'', ''check_ai_health'', ''create_summary_document'',
      ''get_ai_tool_documentation'']"

section \<open>The validation of the other operations\<close>

text \<open>
  An operation that validates: the early return with the message of the first guard that
  fires, otherwise the run of its script. For the operations of this section the script
  itself is a parameter.
\<close>

definition validated ::
  "string option \<Rightarrow> (devonthink \<Rightarrow> result \<times> devonthink) \<Rightarrow> devonthink \<Rightarrow> result outcome" where
  "validated refusal script app =
     (case refusal of
        Some msg \<Rightarrow> Rejected (failure msg)
      | None \<Rightarrow> (case script app of (r, app') \<Rightarrow> Executed r app'))"

text \<open>\<open>getRecordProperties\<close>.\<close>

definition getRecordProperties_validate ::
  "(string \<Rightarrow> bool) \<Rightarrow> string option \<Rightarrow> string option \<Rightarrow> string option \<Rightarrow> string option" where
  "getRecordProperties_validate isJXASafeString uuid recordPath databaseName =
     (if unsafeGiven isJXASafeString uuid then Some ''UUID contains invalid characters''
      else if unsafeGiven isJXASafeString recordPath
      then Some ''Record path contains invalid characters''
      else if unsafeGiven isJXASafeString databaseName
      then Some ''Database name contains invalid characters''
      else None)"

text \<open>\<open>setRecordProperties\<close>: the comment is checked whenever it is given, empty or not.\<close>

definition setRecordProperties_validate ::
  "(string \<Rightarrow> bool) \<Rightarrow> string option \<Rightarrow> string option \<Rightarrow> string option \<Rightarrow> string option \<Rightarrow>
   string option" where
  "setRecordProperties_validate isJXASafeString uuid recordPath databaseName comment =
     (if unsafeGiven isJXASafeString uuid then Some ''UUID contains invalid characters''
      else if unsafeGiven isJXASafeString recordPath
      then Some ''Record path contains invalid characters''
      else if unsafeGiven isJXASafeString databaseName
      then Some ''Database name contains invalid characters''
      else if (case comment of None \<Rightarrow> False | Some c \<Rightarrow> \<not> isJXASafeString c)
      then Some ''Comment contains invalid characters''
      else None)"

text \<open>\<open>convertRecord\<close>, \<open>replicateRecord\<close> and \<open>duplicateRecord\<close> have the same guards.\<close>

definition convertRecord_validate ::
  "(string \<Rightarrow> bool) \<Rightarrow> string option \<Rightarrow> string option \<Rightarrow> string option \<Rightarrow> string option \<Rightarrow>
   string option" where
  "convertRecord_validate isJXASafeString uuid recordPath destinationGroupUuid databaseName =
     (if unsafeGiven isJXASafeString uuid then Some ''UUID contains invalid characters''
      else if unsafeGiven isJXASafeString recordPath
      then Some ''Record path contains invalid characters''
      else if unsafeGiven isJXASafeString destinationGroupUuid
      then Some ''Destination group UUID contains invalid characters''
      else if unsafeGiven isJXASafeString databaseName
      then Some ''Database name contains invalid characters''
      else None)"

definition replicateRecord_validate ::
  "(string \<Rightarrow> bool) \<Rightarrow> string option \<Rightarrow> string option \<Rightarrow> string option \<Rightarrow> string option \<Rightarrow>
   string option" where
  "replicateRecord_validate isJXASafeString uuid recordPath destinationGroupUuid databaseName =
     (if unsafeGiven isJXASafeString uuid then Some ''UUID contains invalid characters''
      else if unsafeGiven isJXASafeString recordPath
      then Some ''Record path contains invalid characters''
      else if unsafeGiven isJXASafeString destinationGroupUuid
      then Some ''Destination group UUID contains invalid characters''
      else if unsafeGiven isJXASafeString databaseName
      then Some ''Database name contains invalid characters''
      else None)"

definition duplicateRecord_validate ::
  "(string \<Rightarrow> bool) \<Rightarrow> string option \<Rightarrow> string option \<Rightarrow> string option \<Rightarrow> string option \<Rightarrow>
   string option" where
  "duplicateRecord_validate isJXASafeString uuid recordPath destinationGroupUuid databaseName =
     (if unsafeGiven isJXASafeString uuid then Some ''UUID contains invalid characters''
      else if unsafeGiven isJXASafeString recordPath
      then Some ''Record path contains invalid characters''
      else if unsafeGiven isJXASafeString destinationGroupUuid
      then Some ''Destination group UUID contains invalid characters''
      else if unsafeGiven isJXASafeString databaseName
      then Some ''Database name contains invalid characters''
      else None)"

text \<open>\<open>compare\<close> and \<open>classify\<close>.\<close>

definition compare_validate ::
  "(string \<Rightarrow> bool) \<Rightarrow> string \<Rightarrow> string option \<Rightarrow> string option \<Rightarrow> string option \<Rightarrow>
   string option" where
  "compare_validate isJXASafeString recordUuid compareWithUuid databaseName comparison =
     (if \<not> isJXASafeString recordUuid then Some ''Record UUID contains invalid characters''
      else if unsafeGiven isJXASafeString compareWithUuid
      then Some ''Compare with UUID contains invalid characters''
      else if unsafeGiven isJXASafeString databaseName
      then Some ''Database name contains invalid characters''
      else if unsafeGiven isJXASafeString comparison
      then Some ''Comparison type contains invalid characters''
      else None)"

definition classify_validate ::
  "(string \<Rightarrow> bool) \<Rightarrow> string \<Rightarrow> string option \<Rightarrow> string option \<Rightarrow> string option" where
  "classify_validate isJXASafeString recordUuid databaseName comparison =
     (if \<not> isJXASafeString recordUuid then Some ''Record UUID contains invalid characters''
      else if unsafeGiven isJXASafeString databaseName
      then Some ''Database name contains invalid characters''
      else if unsafeGiven isJXASafeString comparison
      then Some ''Comparison type contains invalid characters''
      else None)"

text \<open>\<open>getRecordContent\<close>, \<open>addTags\<close> and \<open>updateRecordContent\<close>.\<close>

definition getRecordContent_validate ::
  "(string \<Rightarrow> bool) \<Rightarrow> string \<Rightarrow> string option \<Rightarrow> string option" where
  "getRecordContent_validate isJXASafeString uuid databaseName =
     (if \<not> isJXASafeString uuid then Some ''UUID contains invalid characters''
      else if unsafeGiven isJXASafeString databaseName
      then Some ''Database name contains invalid characters''
      else None)"

definition addTags_validate :: "(string \<Rightarrow> bool) \<Rightarrow> string \<Rightarrow> string list \<Rightarrow> string option" where
  "addTags_validate isJXASafeString uuid tags =
     (if \<not> isJXASafeString uuid then Some ''UUID contains invalid characters''
      else case find (\<lambda>tag. \<not> isJXASafeString tag) tags of
             Some tag \<Rightarrow> Some (''Tag '' @ dq @ tag @ dq @ '' contains invalid characters'')
           | None \<Rightarrow> None)"

definition updateRecordContent_validate ::
  "(string \<Rightarrow> bool) \<Rightarrow> string \<Rightarrow> string \<Rightarrow> string option" where
  "updateRecordContent_validate isJXASafeString uuid content =
     (if \<not> isJXASafeString uuid then Some ''UUID contains invalid characters''
      else if \<not> isJXASafeString content then Some ''Content contains invalid characters''
      else None)"

text \<open>
  A refusal that names an offending field: the operation returned, before building any
  script, the failure whose message belongs to a field that offends. A field is given as
  whether it offends, paired with its message.
\<close>

definition refused :: "'r outcome \<Rightarrow> (string \<Rightarrow> 'r) \<Rightarrow> (bool \<times> string) list \<Rightarrow> bool" where
  "refused out fail fs = list_ex (\<lambda>f. fst f \<and> out = Rejected (fail (snd f))) fs"

section \<open>get_record_content\<close>

text \<open>
  The properties \<open>plainText\<close> and \<open>richText\<close> of a record are parameters of the script.
\<close>

record contentResult = result +
  rc_content :: "string option"

definition contentFailure :: "string \<Rightarrow> contentResult" where
  "contentFailure msg = \<lparr>success = False, error = Some msg, rc_content = None\<rparr>"

text \<open>
  The script of \<open>getRecordContent\<close>. Like those of \<open>renameRecord\<close> and \<open>removeTags\<close> it
  looks the record up by the UUID alone and then verifies the database when one was given.
\<close>

definition getRecordContent_script ::
  "(dtrecord \<Rightarrow> string) \<Rightarrow> (dtrecord \<Rightarrow> string) \<Rightarrow> string option \<Rightarrow> string option \<Rightarrow>
   devonthink \<Rightarrow> contentResult" where
  "getRecordContent_script plainText richText pUuid pDatabaseName app =
     (let lookupResult =
            getRecord app \<lparr>lo_uuid = pUuid, lo_id = None, lo_path = None, lo_name = None,
                           lo_database = None\<rparr>
      in case lr_record lookupResult of
           None \<Rightarrow>
             contentFailure (''Record with UUID '' @ orElse pUuid ''unknown'' @ '' not found'')
         | Some h \<Rightarrow>
             if truthy pDatabaseName \<and> Some (r_database (snd h)) \<noteq> pDatabaseName
             then contentFailure (''Record with UUID '' @ orElse pUuid ''unknown'' @
                                  '' not found in database '' @ orElse pDatabaseName ''unknown'')
             else (let recordType = r_recordType (snd h)
                   in \<lparr>success = True, error = None,
                       rc_content = Some
                         (if recordType = ''markdown'' \<or> recordType = ''txt'' \<or>
                             recordType = ''formatted note''
                          then plainText (snd h)
                          else if recordType = ''rtf'' then richText (snd h)
                          else plainText (snd h))\<rparr>))"

definition getRecordContent ::
  "(string \<Rightarrow> bool) \<Rightarrow> (dtrecord \<Rightarrow> string) \<Rightarrow> (dtrecord \<Rightarrow> string) \<Rightarrow> string \<Rightarrow>
   string option \<Rightarrow> devonthink \<Rightarrow> contentResult outcome" where
  "getRecordContent isJXASafeString plainText richText uuid databaseName app =
     (case getRecordContent_validate isJXASafeString uuid databaseName of
        Some msg \<Rightarrow> Rejected (contentFailure msg)
      | None \<Rightarrow>
          Executed (getRecordContent_script plainText richText (strOrNull (Some uuid))
                      (strOrNull databaseName) app) app)"

section \<open>The record an operation acts on\<close>

text \<open>
  The scripts of \<open>getRecordProperties\<close>, \<open>setRecordProperties\<close>, \<open>convertRecord\<close>,
  \<open>replicateRecord\<close> and \<open>duplicateRecord\<close> open with the statements of the script of
  \<open>deleteRecord\<close>, under different variable names: they resolve the
  database with \<open>getDatabase\<close>, hand \<open>getRecord\<close> the UUID, the id, the path and that
  database, and return a failure that names the identifier when no record comes back. The
  block gives the record the rest of the script acts on, or the error of the failure the
  script returns; an error thrown by \<open>getDatabase\<close> reaches the \<open>catch\<close> of the script and
  becomes the failure \<open>error.toString()\<close>.
\<close>

definition addressedRecord ::
  "string option \<Rightarrow> string option \<Rightarrow> int option \<Rightarrow> string option \<Rightarrow> devonthink \<Rightarrow>
   string + handle" where
  "addressedRecord pDatabaseName pUuid pRecordId pRecordPath app =
     (case getDatabase app pDatabaseName of
        Inl msg \<Rightarrow> Inl (errorToString msg)
      | Inr targetDatabase \<Rightarrow>
          (let lookupResult =
                 getRecord app \<lparr>lo_uuid = pUuid, lo_id = pRecordId, lo_path = pRecordPath,
                                lo_name = None, lo_database = Some targetDatabase\<rparr>
           in case lr_record lookupResult of
                None \<Rightarrow>
                  Inl (if numTruthy pRecordId
                       then ''Record with ID '' @ showNum pRecordId @ '' not found in database '' @
                            sq @ db_name targetDatabase @ sq
                       else if truthy pUuid
                       then ''Record with UUID '' @ orElse pUuid ''unknown'' @ '' not found''
                       else if truthy pRecordPath
                       then ''Record at DEVONthink location path '' @
                            orElse pRecordPath ''unknown'' @ '' not found''
                       else orElse (lr_error lookupResult) ''Record not found'')
              | Some targetRecord \<Rightarrow> Inr targetRecord))"

text \<open>
  The five operations up to that record, named after the variable their script binds it
  to: the early return of the validation, otherwise the block above on the values their
  literals denote.
\<close>

definition getRecordProperties_targetRecord ::
  "(string \<Rightarrow> bool) \<Rightarrow> string option \<Rightarrow> int option \<Rightarrow> string option \<Rightarrow> string option \<Rightarrow>
   devonthink \<Rightarrow> string + handle" where
  "getRecordProperties_targetRecord isJXASafeString uuid recordId recordPath databaseName app =
     (case getRecordProperties_validate isJXASafeString uuid recordPath databaseName of
        Some msg \<Rightarrow> Inl msg
      | None \<Rightarrow>
          addressedRecord (strOrNull databaseName) (strOrNull uuid) recordId (strOrNull recordPath)
            app)"

definition setRecordProperties_rec ::
  "(string \<Rightarrow> bool) \<Rightarrow> string option \<Rightarrow> int option \<Rightarrow> string option \<Rightarrow> string option \<Rightarrow>
   string option \<Rightarrow> devonthink \<Rightarrow> string + handle" where
  "setRecordProperties_rec isJXASafeString uuid recordId recordPath databaseName comment app =
     (case setRecordProperties_validate isJXASafeString uuid recordPath databaseName comment of
        Some msg \<Rightarrow> Inl msg
      | None \<Rightarrow>
          addressedRecord (strOrNull databaseName) (strOrNull uuid) recordId (strOrNull recordPath)
            app)"

definition convertRecord_sourceRecord ::
  "(string \<Rightarrow> bool) \<Rightarrow> string option \<Rightarrow> int option \<Rightarrow> string option \<Rightarrow> string option \<Rightarrow>
   string option \<Rightarrow> devonthink \<Rightarrow> string + handle" where
  "convertRecord_sourceRecord isJXASafeString uuid recordId recordPath destinationGroupUuid databaseName
       app =
     (case convertRecord_validate isJXASafeString uuid recordPath destinationGroupUuid
             databaseName of
        Some msg \<Rightarrow> Inl msg
      | None \<Rightarrow>
          addressedRecord (strOrNull databaseName) (strOrNull uuid) recordId (strOrNull recordPath)
            app)"

definition replicateRecord_sourceRecord ::
  "(string \<Rightarrow> bool) \<Rightarrow> string option \<Rightarrow> int option \<Rightarrow> string option \<Rightarrow> string option \<Rightarrow>
   string option \<Rightarrow> devonthink \<Rightarrow> string + handle" where
  "replicateRecord_sourceRecord isJXASafeString uuid recordId recordPath destinationGroupUuid
       databaseName app =
     (case replicateRecord_validate isJXASafeString uuid recordPath destinationGroupUuid
             databaseName of
        Some msg \<Rightarrow> Inl msg
      | None \<Rightarrow>
          addressedRecord (strOrNull databaseName) (strOrNull uuid) recordId (strOrNull recordPath)
            app)"

definition duplicateRecord_sourceRecord ::
  "(string \<Rightarrow> bool) \<Rightarrow> string option \<Rightarrow> int option \<Rightarrow> string option \<Rightarrow> string option \<Rightarrow>
   string option \<Rightarrow> devonthink \<Rightarrow> string + handle" where
  "duplicateRecord_sourceRecord isJXASafeString uuid recordId recordPath destinationGroupUuid
       databaseName app =
     (case duplicateRecord_validate isJXASafeString uuid recordPath destinationGroupUuid
             databaseName of
        Some msg \<Rightarrow> Inl msg
      | None \<Rightarrow>
          addressedRecord (strOrNull databaseName) (strOrNull uuid) recordId (strOrNull recordPath)
            app)"

text \<open>
  The scripts of \<open>classify\<close> and \<open>compare\<close> resolve the database first as well, and then
  hand \<open>getRecord\<close> the UUID alone.
\<close>

definition classify_resolve :: "string option \<Rightarrow> string option \<Rightarrow> devonthink \<Rightarrow> string + handle" where
  "classify_resolve pDatabaseName pRecordUuid app =
     (case getDatabase app pDatabaseName of
        Inl msg \<Rightarrow> Inl (errorToString msg)
      | Inr targetDatabase \<Rightarrow>
          (case lr_record (getRecord app \<lparr>lo_uuid = pRecordUuid, lo_id = None, lo_path = None,
                                           lo_name = None, lo_database = None\<rparr>) of
             None \<Rightarrow> Inl (''Record not found with UUID: '' @ orElse pRecordUuid ''unknown'')
           | Some targetRecord \<Rightarrow> Inr targetRecord))"

definition classify_targetRecord ::
  "(string \<Rightarrow> bool) \<Rightarrow> string \<Rightarrow> string option \<Rightarrow> string option \<Rightarrow> devonthink \<Rightarrow>
   string + handle" where
  "classify_targetRecord isJXASafeString recordUuid databaseName comparison app =
     (case classify_validate isJXASafeString recordUuid databaseName comparison of
        Some msg \<Rightarrow> Inl msg
      | None \<Rightarrow> classify_resolve (strOrNull databaseName) (strOrNull (Some recordUuid)) app)"

definition compare_resolve :: "string option \<Rightarrow> string option \<Rightarrow> devonthink \<Rightarrow> string + handle" where
  "compare_resolve pDatabaseName pRecordUuid app =
     (case getDatabase app pDatabaseName of
        Inl msg \<Rightarrow> Inl (errorToString msg)
      | Inr targetDatabase \<Rightarrow>
          (case lr_record (getRecord app \<lparr>lo_uuid = pRecordUuid, lo_id = None, lo_path = None,
                                           lo_name = None, lo_database = None\<rparr>) of
             None \<Rightarrow> Inl (''Primary record not found with UUID: '' @ orElse pRecordUuid ''unknown'')
           | Some primaryRecord \<Rightarrow> Inr primaryRecord))"

definition compare_primaryRecord ::
  "(string \<Rightarrow> bool) \<Rightarrow> string \<Rightarrow> string option \<Rightarrow> string option \<Rightarrow> string option \<Rightarrow>
   devonthink \<Rightarrow> string + handle" where
  "compare_primaryRecord isJXASafeString recordUuid compareWithUuid databaseName comparison app =
     (case compare_validate isJXASafeString recordUuid compareWithUuid databaseName comparison of
        Some msg \<Rightarrow> Inl msg
      | None \<Rightarrow> compare_resolve (strOrNull databaseName) (strOrNull (Some recordUuid)) app)"

section \<open>The string sanitizer\<close>

text \<open>
  Modelled from the spec: \<open>isJXASafeString\<close> of \<open>utils/escapeString\<close> is not among the
  sources. The spec has it reject every string that contains a double quote, a backslash
  or an ASCII control character outside an allow-list; newline is the one control
  character the spec names as permitted. The operations take the sanitizer as a
  parameter, so what is proved of them holds for any sanitizer.
\<close>

definition controlChar :: "char \<Rightarrow> bool" where
  "controlChar c = ((of_char c :: nat) < 32 \<or> (of_char c :: nat) = 127)"

definition forbiddenChar :: "char \<Rightarrow> bool" where
  "forbiddenChar c =
     (c = CHR 0x22 \<or> c = CHR 0x5C \<or> (if c = CHR 0x0A then False else controlChar c))"

definition isJXASafeString :: "string \<Rightarrow> bool" where
  "isJXASafeString s = (\<not> list_ex forbiddenChar s)"

section \<open>The validated fields\<close>

text \<open>
  A field offends when it holds a string with a forbidden character. Each operation that
  validates is listed with its validated fields: whether the field offends, paired with
  the message that names the field. The lists follow the spec's wording (a validation
  failure naming the offending field); the operations themselves are the definitions
  above.
\<close>

definition offending :: "string option \<Rightarrow> bool" where
  "offending x = (case x of None \<Rightarrow> False | Some s \<Rightarrow> list_ex forbiddenChar s)"

definition tagFields :: "string list \<Rightarrow> (bool \<times> string) list" where
  "tagFields tags =
     map (\<lambda>tag. (offending (Some tag),
                  ''Tag '' @ dq @ tag @ dq @ '' contains invalid characters'')) tags"

definition search_fields :: "searchInput \<Rightarrow> (bool \<times> string) list" where
  "search_fields input =
     [(offending (Some (si_query input)), ''Search query contains invalid characters''),
      (offending (si_groupUuid input), ''Group UUID contains invalid characters''),
      (offending (si_groupPath input), ''Group path contains invalid characters''),
      (offending (si_databaseName input), ''Database name contains invalid characters'')]"

definition renameRecord_fields :: "string \<Rightarrow> string \<Rightarrow> string option \<Rightarrow> (bool \<times> string) list" where
  "renameRecord_fields uuid newName databaseName =
     [(offending (Some uuid), ''UUID contains invalid characters''),
      (offending (Some newName), ''New name contains invalid characters''),
      (offending databaseName, ''Database name contains invalid characters'')]"

definition removeTags_fields ::
  "string \<Rightarrow> string list \<Rightarrow> string option \<Rightarrow> (bool \<times> string) list" where
  "removeTags_fields uuid tags databaseName =
     (offending (Some uuid), ''UUID contains invalid characters'') # tagFields tags @
     [(offending databaseName, ''Database name contains invalid characters'')]"

definition addTags_fields :: "string \<Rightarrow> string list \<Rightarrow> (bool \<times> string) list" where
  "addTags_fields uuid tags =
     (offending (Some uuid), ''UUID contains invalid characters'') # tagFields tags"

definition getRecordByIdentifier_fields ::
  "string option \<Rightarrow> string option \<Rightarrow> (bool \<times> string) list" where
  "getRecordByIdentifier_fields uuid databaseName =
     [(offending uuid, ''UUID contains invalid characters''),
      (offending databaseName, ''Database name contains invalid characters'')]"

definition moveRecord_fields ::
  "string option \<Rightarrow> string option \<Rightarrow> string option \<Rightarrow> string option \<Rightarrow> string option \<Rightarrow>
   (bool \<times> string) list" where
  "moveRecord_fields uuid recordName recordPath destinationGroupUuid databaseName =
     [(offending uuid, ''UUID contains invalid characters''),
      (offending recordName, ''Record name contains invalid characters''),
      (offending recordPath, ''Record path contains invalid characters''),
      (offending destinationGroupUuid, ''Destination UUID contains invalid characters''),
      (offending databaseName, ''Database name contains invalid characters'')]"

text \<open>
  \<open>deleteRecord\<close> and \<open>getRecordProperties\<close> validate the same three fields with the same
  messages.
\<close>

definition recordAddress_fields ::
  "string option \<Rightarrow> string option \<Rightarrow> string option \<Rightarrow> (bool \<times> string) list" where
  "recordAddress_fields uuid recordPath databaseName =
     [(offending uuid, ''UUID contains invalid characters''),
      (offending recordPath, ''Record path contains invalid characters''),
      (offending databaseName, ''Database name contains invalid characters'')]"

definition setRecordProperties_fields ::
  "string option \<Rightarrow> string option \<Rightarrow> string option \<Rightarrow> string option \<Rightarrow> (bool \<times> string) list" where
  "setRecordProperties_fields uuid recordPath databaseName comment =
     recordAddress_fields uuid recordPath databaseName @
     [(offending comment, ''Comment contains invalid characters'')]"

text \<open>\<open>convertRecord\<close>, \<open>replicateRecord\<close> and \<open>duplicateRecord\<close>.\<close>

definition destination_fields ::
  "string option \<Rightarrow> string option \<Rightarrow> string option \<Rightarrow> string option \<Rightarrow> (bool \<times> string) list" where
  "destination_fields uuid recordPath destinationGroupUuid databaseName =
     [(offending uuid, ''UUID contains invalid characters''),
      (offending recordPath, ''Record path contains invalid characters''),
      (offending destinationGroupUuid, ''Destination group UUID contains invalid characters''),
      (offending databaseName, ''Database name contains invalid characters'')]"

definition compare_fields ::
  "string \<Rightarrow> string option \<Rightarrow> string option \<Rightarrow> string option \<Rightarrow> (bool \<times> string) list" where
  "compare_fields recordUuid compareWithUuid databaseName comparison =
     [(offending (Some recordUuid), ''Record UUID contains invalid characters''),
      (offending compareWithUuid, ''Compare with UUID contains invalid characters''),
      (offending databaseName, ''Database name contains invalid characters''),
      (offending comparison, ''Comparison type contains invalid characters'')]"

definition classify_fields ::
  "string \<Rightarrow> string option \<Rightarrow> string option \<Rightarrow> (bool \<times> string) list" where
  "classify_fields recordUuid databaseName comparison =
     [(offending (Some recordUuid), ''Record UUID contains invalid characters''),
      (offending databaseName, ''Database name contains invalid characters''),
      (offending comparison, ''Comparison type contains invalid characters'')]"

definition getRecordContent_fields :: "string \<Rightarrow> string option \<Rightarrow> (bool \<times> string) list" where
  "getRecordContent_fields uuid databaseName =
     [(offending (Some uuid), ''UUID contains invalid characters''),
      (offending databaseName, ''Database name contains invalid characters'')]"

definition updateRecordContent_fields :: "string \<Rightarrow> string \<Rightarrow> (bool \<times> string) list" where
  "updateRecordContent_fields uuid content =
     [(offending (Some uuid), ''UUID contains invalid characters''),
      (offending (Some content), ''Content contains invalid characters'')]"

section \<open>Example data\<close>

text \<open>
  A small state of the application for the concrete evaluations below: two open databases
  and three records, a note and a PDF in \<open>Inbox\<close> and a group in \<open>Research\<close>.
\<close>

definition exampleNote :: dtrecord where
  "exampleNote =
     \<lparr>r_id = 11, r_uuid = ''AAAA-1111'', r_name = ''Note'', r_path = ''/db/Note.md'',
      r_location = ''/'', r_recordType = ''markdown'', r_kind = ''Markdown'',
      r_tags = [''old-tag'', ''keep''], r_size = 120, r_database = ''Inbox''\<rparr>"

definition exampleGroup :: dtrecord where
  "exampleGroup =
     \<lparr>r_id = 22, r_uuid = ''BBBB-2222'', r_name = ''Archive'', r_path = [],
      r_location = ''/'', r_recordType = ''group'', r_kind = ''Group'',
      r_tags = [], r_size = 0, r_database = ''Research''\<rparr>"

definition examplePdf :: dtrecord where
  "examplePdf =
     \<lparr>r_id = 33, r_uuid = ''CCCC-3333'', r_name = ''Paper'', r_path = ''/db/Paper.pdf'',
      r_location = ''/'', r_recordType = ''PDF'', r_kind = ''PDF'',
      r_tags = [''keep''], r_size = 4096, r_database = ''Inbox''\<rparr>"

definition exampleApp :: devonthink where
  "exampleApp =
     \<lparr>databases = [\<lparr>db_name = ''Inbox''\<rparr>, \<lparr>db_name = ''Research''\<rparr>],
      currentDatabase = Some \<lparr>db_name = ''Inbox''\<rparr>,
      records = [exampleNote, exampleGroup, examplePdf],
      currentGroup = None\<rparr>"

text \<open>A \<open>move\<close> command that always reports a record moved, for the evaluations.\<close>

definition exampleMove :: moveCommand where
  "exampleMove app r d = (Inr (Some (snd r)), app)"

text \<open>A \<open>delete\<close> command that returns \<open>false\<close> and deletes nothing.\<close>

definition refusingDelete :: deleteCommand where
  "refusingDelete app r = (Inr False, app)"

text \<open>
  A search environment for the evaluations: the application finds every record, groups are
  the records of type \<open>group\<close> or \<open>smart group\<close>, and the query is passed on as it is.
\<close>

definition exampleSearchEnv :: searchEnv where
  "exampleSearchEnv =
     \<lparr>se_search = (\<lambda>app query options. Inr (records app)),
      se_isGroup = (\<lambda>r. r_recordType r = ''group'' \<or> r_recordType r = ''smart group''),
      se_isVersion41OrLater = True,
      se_escapeSearchQuery = (\<lambda>q. q)\<rparr>"

definition exampleSearchInput :: "int option \<Rightarrow> searchInput" where
  "exampleSearchInput limit =
     \<lparr>si_query = ''report'', si_groupUuid = None, si_groupId = None, si_groupPath = None,
      si_databaseName = None, si_useCurrentGroup = None, si_recordType = None,
      si_comparison = None, si_excludeSubgroups = None, si_limit = limit\<rparr>"

text \<open>
  A tool table for the evaluations: every tool of \<open>createServer\<close>, each with a \<open>run\<close> that
  counts its calls in the world.
\<close>

definition exampleTools :: "(unit, nat, unit) tool list" where
  "exampleTools =
     map (\<lambda>n. \<lparr>t_name = n, t_run = Some (\<lambda>args calls. (Inr (), Suc calls))\<rparr>) toolNames"



text \<open>
  An escaper for the evaluations: a backslash before every backslash and every double
  quote.
\<close>

definition exampleEscaper :: "string \<Rightarrow> string" where
  "exampleEscaper s =
     concat (map (\<lambda>c. if c = CHR 0x5C \<or> c = CHR 0x22 then [CHR 0x5C, c] else [c]) s)"

section \<open>Properties\<close>

subsection \<open>Facts about the helpers and the example data\<close>

lemmas example_defs = exampleApp_def exampleNote_def exampleGroup_def examplePdf_def

lemmas sanitizer_defs = isJXASafeString_def forbiddenChar_def controlChar_def unsafeGiven_def

lemma example_lookup_note: "getRecordWithUuid exampleApp ''AAAA-1111'' = Some (0, exampleNote)"
  by (simp add: getRecordWithUuid_def example_defs)

lemma truthy_strOrNull [simp]: "truthy (strOrNull x) = truthy x"
  by (simp add: truthy_def strOrNull_def split: option.splits)

lemma strOrNull_idem [simp]: "strOrNull (strOrNull x) = strOrNull x"
  by (simp add: strOrNull_def split: option.splits)

lemma getRecord_by_uuid:
  "u \<noteq> [] \<Longrightarrow> getRecordWithUuid app u = Some h \<Longrightarrow>
   getRecord app \<lparr>lo_uuid = Some u, lo_id = i, lo_path = p, lo_name = n, lo_database = d\<rparr> = found h"
  by (simp add: getRecord_def strOrNull_def)

lemma getDatabase_strOrNull [simp]: "getDatabase app (strOrNull d) = getDatabase app d"
  by (simp add: getDatabase_def)

lemma example_lookup_pdf: "getRecordWithUuid exampleApp ''CCCC-3333'' = Some (2, examplePdf)"
  by (simp add: getRecordWithUuid_def example_defs)

lemma example_lookup_missing: "getRecordWithUuid exampleApp ''ZZZZ-0000'' = None"
  by (simp add: getRecordWithUuid_def example_defs)

lemma example_current_database: "getDatabase exampleApp None = Inr \<lparr>db_name = ''Inbox''\<rparr>"
  by (simp add: getDatabase_def strOrNull_def exampleApp_def)

subsection \<open>Idempotence of tag removal\<close>

lemma firstMatch_update:
  "firstMatch P xs = Some (i, x) \<Longrightarrow> P y \<Longrightarrow> firstMatch P (xs[i := y]) = Some (i, y)"
proof (induction xs arbitrary: i)
  case Nil
  then show ?case by simp
next
  case (Cons a xs)
  show ?case
  proof (cases "P a")
    case True
    with Cons.prems show ?thesis by simp
  next
    case False
    with Cons.prems obtain j where j: "firstMatch P xs = Some (j, x)" "i = Suc j"
      by (auto split: option.splits)
    from Cons.IH [OF j(1) Cons.prems(2)] False j(2) show ?thesis by simp
  qed
qed

lemma firstMatch_holds: "firstMatch P xs = Some (i, x) \<Longrightarrow> P x"
  by (induction xs arbitrary: i) (auto split: if_splits option.splits)

lemma removeTags_script_idem:
  "snd (removeTags_script p tags d (snd (removeTags_script p tags d app))) = snd (removeTags_script p tags d app)"
proof (cases "lr_record (getRecord app \<lparr>lo_uuid = p, lo_id = None, lo_path = None, lo_name = None, lo_database = None\<rparr>)")
  case None
  then show ?thesis by (simp add: removeTags_script_def)
next
  case (Some h)
  obtain i r where h: "h = (i, r)" by (cases h)
  from Some obtain u where u: "strOrNull p = Some u" "getRecordWithUuid app u = Some (i, r)"
    unfolding h by (auto simp: getRecord_def found_def notFound_def split: option.splits)
  show ?thesis
  proof (cases "truthy d \<and> Some (r_database r) \<noteq> d")
    case True
    with Some h show ?thesis by (simp add: removeTags_script_def)
  next
    case False
    let ?new = "filter (\<lambda>tag. tag \<notin> set tags) (r_tags r)"
    let ?r' = "r\<lparr>r_tags := ?new\<rparr>"
    let ?app' = "setTags app (i, r) ?new"
    have first: "snd (removeTags_script p tags d app) = ?app'"
      using Some h False by (auto simp: removeTags_script_def)
    have uu: "r_uuid r = u"
      using u(2) firstMatch_holds [of "\<lambda>r. r_uuid r = u"] by (simp add: getRecordWithUuid_def)
    have look: "getRecordWithUuid ?app' u = Some (i, ?r')"
      using u(2) uu by (simp add: getRecordWithUuid_def setTags_def firstMatch_update)
    have rec': "lr_record (getRecord ?app' \<lparr>lo_uuid = p, lo_id = None, lo_path = None, lo_name = None, lo_database = None\<rparr>) = Some (i, ?r')"
      using u(1) look by (simp add: getRecord_def found_def)
    have "snd (removeTags_script p tags d ?app') = setTags ?app' (i, ?r') (filter (\<lambda>tag. tag \<notin> set tags) ?new)"
      using rec' False by (auto simp: removeTags_script_def)
    also have "\<dots> = ?app'"
      by (simp add: setTags_def)
    finally show ?thesis using first by simp
  qed
qed

text \<open>
  C7. Removing tags is idempotent. Running \<open>removeTags\<close> a second time with the same
  arguments leaves the application, and with it the tags of every record, exactly as the
  first run left it. This covers every way the call can end: a rejected input, a record
  that is not found, a database that does not match, and the filtering of the tags.
\<close>

theorem removeTags_idempotent:
  "appAfter (appAfter app (removeTags safe uuid tags db app))
            (removeTags safe uuid tags db (appAfter app (removeTags safe uuid tags db app)))
   = appAfter app (removeTags safe uuid tags db app)"
proof (cases "removeTags safe uuid tags db app")
  case (Rejected r)
  then show ?thesis by (simp add: appAfter_def)
next
  case (Executed r app')
  then have ok: "removeTags_validate safe uuid tags db = None"
    by (auto simp: removeTags_def split: option.splits)
  have run: "\<And>a. removeTags safe uuid tags db a =
      Executed (fst (removeTags_script (strOrNull (Some uuid)) tags (strOrNull db) a))
               (snd (removeTags_script (strOrNull (Some uuid)) tags (strOrNull db) a))"
    using ok by (simp add: removeTags_def split: prod.splits)
  show ?thesis
    by (simp add: run appAfter_def removeTags_script_idem)
qed

text \<open>
  What a successful run does: the record's tags become the existing tags without those of
  the list, in their order.
\<close>

lemma removeTags_filters:
  assumes "removeTags_validate safe uuid tags databaseName = None"
    and "uuid \<noteq> []" and "getRecordWithUuid app uuid = Some h"
    and "\<not> (truthy databaseName \<and> Some (r_database (snd h)) \<noteq> databaseName)"
  shows "removeTags safe uuid tags databaseName app =
           Executed succeeded (setTags app h (filter (\<lambda>tag. tag \<notin> set tags) (r_tags (snd h))))"
proof -
  have look: "lr_record (getRecord app \<lparr>lo_uuid = Some uuid, lo_id = None, lo_path = None,
                 lo_name = None, lo_database = None\<rparr>) = Some h"
    using assms(2,3) by (simp add: getRecord_by_uuid found_def)
  have su: "strOrNull (Some uuid) = Some uuid"
    using assms(2) by (simp add: strOrNull_def)
  have db: "\<not> (truthy (strOrNull databaseName) \<and> Some (r_database (snd h)) \<noteq> strOrNull databaseName)"
    using assms(4) by (auto simp: truthy_def strOrNull_def split: option.splits)
  show ?thesis
    using assms(1) look db by (auto simp: removeTags_def removeTags_script_def su)
qed

text \<open>In the example, removing \<open>old-tag\<close> and a tag the note does not have leaves \<open>keep\<close>.\<close>

lemma removeTags_example:
  "removeTags isJXASafeString ''AAAA-1111'' [''old-tag'', ''missing''] None exampleApp =
     Executed succeeded (setTags exampleApp (0, exampleNote) [''keep''])"
  using removeTags_filters [of isJXASafeString "''AAAA-1111''" "[''old-tag'', ''missing'']" None
      exampleApp "(0, exampleNote)"]
  by (simp add: removeTags_validate_def sanitizer_defs example_lookup_note truthy_def
      exampleNote_def)

subsection \<open>Resolution by UUID and the database name\<close>

lemma lookup_by_uuid:
  assumes "u \<noteq> []" and "getRecordWithUuid app u = Some h"
  shows "lr_record (getRecord app \<lparr>lo_uuid = Some u, lo_id = i, lo_path = p, lo_name = n,
                                   lo_database = db\<rparr>) = Some h"
  using assms by (simp add: getRecord_by_uuid found_def)

lemma strOrNull_Some: "u \<noteq> [] \<Longrightarrow> strOrNull (Some u) = Some u"
  by (simp add: strOrNull_def)

lemma database_guard: "truthy d \<Longrightarrow> strOrNull d = d"
  by (auto simp: truthy_def strOrNull_def split: option.splits)

lemma orElse_strOrNull: "orElse (strOrNull x) y = orElse x y"
  by (simp add: orElse_def strOrNull_def split: option.splits)

lemma orElse_Some: "u \<noteq> [] \<Longrightarrow> orElse (Some u) y = u"
  by (simp add: orElse_def)

lemma orElse_truthy: "truthy d \<Longrightarrow> orElse d y = orEmpty d"
  by (auto simp: truthy_def orElse_def orEmpty_def split: option.splits)

lemma getRecordByIdentifier_by_uuid:
  assumes "u \<noteq> []" and "getRecordWithUuid app u = Some h"
    and "getRecordByIdentifier_validate safe (Some u) d = None"
  shows "getRecordByIdentifier safe (Some u) i d app =
           Executed \<lparr>success = True, error = None, rr_record = Some (snd h)\<rparr> app"
  using assms
  by (simp add: getRecordByIdentifier_def getRecordByIdentifier_script_def strOrNull_Some
      lookup_by_uuid truthy_def)

lemma renameRecord_by_uuid:
  assumes "u \<noteq> []" and "getRecordWithUuid app u = Some h"
    and "renameRecord_validate safe u newName d = None" and "newName \<noteq> []"
  shows "renameRecord safe u newName d app =
           (if truthy d \<and> Some (r_database (snd h)) \<noteq> d
            then Executed (failure (''Record with UUID '' @ u @ '' not found in database '' @
                                    orEmpty d)) app
            else Executed succeeded (setName app h newName))"
  using assms
  by (simp add: renameRecord_def renameRecord_script_def strOrNull_Some lookup_by_uuid
      database_guard orElse_truthy orElse_Some cong: conj_cong)

lemma removeTags_by_uuid:
  assumes "u \<noteq> []" and "getRecordWithUuid app u = Some h"
    and "removeTags_validate safe u tags d = None"
  shows "removeTags safe u tags d app =
           (if truthy d \<and> Some (r_database (snd h)) \<noteq> d
            then Executed (failure (''Record with UUID '' @ u @ '' not found in database '' @
                                    orEmpty d)) app
            else Executed succeeded
                   (setTags app h (filter (\<lambda>tag. tag \<notin> set tags) (r_tags (snd h)))))"
  using assms
  by (simp add: removeTags_def removeTags_script_def strOrNull_Some lookup_by_uuid
      database_guard orElse_truthy orElse_Some cong: conj_cong)

lemma getRecordContent_by_uuid:
  assumes "u \<noteq> []" and "getRecordWithUuid app u = Some h"
    and "getRecordContent_validate safe u d = None"
  shows "getRecordContent safe plainText richText u d app =
           (if truthy d \<and> Some (r_database (snd h)) \<noteq> d
            then Executed (contentFailure (''Record with UUID '' @ u @
                                           '' not found in database '' @ orEmpty d)) app
            else Executed \<lparr>success = True, error = None,
                            rc_content = Some (if r_recordType (snd h) = ''rtf''
                                               then richText (snd h)
                                               else plainText (snd h))\<rparr> app)"
  using assms
  by (auto simp: getRecordContent_def getRecordContent_script_def strOrNull_Some lookup_by_uuid
      database_guard orElse_truthy orElse_Some Let_def cong: conj_cong)

lemma deleteRecord_by_uuid:
  assumes "u \<noteq> []" and "getRecordWithUuid app u = Some h"
    and "deleteRecord_validate safe (Some u) recordPath d = None"
  shows "deleteRecord safe delete (Some u) recordId recordPath d app =
           (case getDatabase app d of
              Inl msg \<Rightarrow> Executed (failure (''Error: '' @ msg)) app
            | Inr targetDatabase \<Rightarrow>
                (case delete app h of
                   (Inl thrown, app') \<Rightarrow> Executed (failure thrown) app'
                 | (Inr deleted, app') \<Rightarrow> Executed \<lparr>success = deleted, error = None\<rparr> app'))"
  using assms
  by (simp add: deleteRecord_def deleteRecord_script_def strOrNull_Some lookup_by_uuid
      errorToString_def split: sum.splits prod.splits)

lemma nonempty_strOrNull:
  "(case strOrNull x of None \<Rightarrow> None | Some g \<Rightarrow> if g = [] then None else f g) =
   (case strOrNull x of None \<Rightarrow> None | Some g \<Rightarrow> f g)"
  by (simp add: strOrNull_def split: option.splits)

lemma moveRecord_by_uuid:
  assumes "u \<noteq> []" and "getRecordWithUuid app u = Some h"
    and "moveRecord_validate safe (Some u) recordName recordPath destinationGroupUuid d = None"
  shows "moveRecord safe move (Some u) recordId recordName recordPath destinationGroupUuid d app =
           (case getDatabase app d of
              Inl msg \<Rightarrow> Executed (moveFailure (''Error: '' @ msg)) app
            | Inr targetDatabase \<Rightarrow>
                (case (case strOrNull destinationGroupUuid of
                         None \<Rightarrow> None
                       | Some g \<Rightarrow> getRecordWithUuid app g) of
                   None \<Rightarrow>
                     Executed (moveFailure (''Error: Destination group with UUID not found: '' @
                                 orElse destinationGroupUuid ''unknown'')) app
                 | Some destinationGroupRecord \<Rightarrow>
                     if r_recordType (snd destinationGroupRecord) \<noteq> ''group'' \<and>
                        r_recordType (snd destinationGroupRecord) \<noteq> ''smart group''
                     then Executed (moveFailure
                            (''Error: Destination is not a group. Record type: '' @
                             r_recordType (snd destinationGroupRecord))) app
                     else (case move app h destinationGroupRecord of
                             (Inl thrown, app') \<Rightarrow> Executed (moveFailure thrown) app'
                           | (Inr None, app') \<Rightarrow>
                               Executed (moveFailure ''Failed to move record'') app'
                           | (Inr (Some moved), app') \<Rightarrow>
                               Executed \<lparr>success = True, error = None,
                                         newLocation = Some (r_location moved)\<rparr> app')))"
  using assms
  by (simp add: moveRecord_def moveRecord_script_def strOrNull_Some lookup_by_uuid
      errorToString_def Let_def nonempty_strOrNull orElse_strOrNull
      split: sum.splits prod.splits option.splits)

lemma addressedRecord_by_uuid:
  assumes "u \<noteq> []" and "getRecordWithUuid app u = Some h"
  shows "addressedRecord (strOrNull d) (strOrNull (Some u)) recordId pRecordPath app =
           (case getDatabase app d of
              Inl msg \<Rightarrow> Inl (''Error: '' @ msg)
            | Inr targetDatabase \<Rightarrow> Inr h)"
  using assms
  by (simp add: addressedRecord_def strOrNull_Some lookup_by_uuid errorToString_def
      split: sum.splits)


lemma classify_resolve_by_uuid:
  assumes "u \<noteq> []" and "getRecordWithUuid app u = Some h"
  shows "classify_resolve (strOrNull d) (strOrNull (Some u)) app =
           (case getDatabase app d of
              Inl msg \<Rightarrow> Inl (''Error: '' @ msg)
            | Inr targetDatabase \<Rightarrow> Inr h)"
  using assms
  by (simp add: classify_resolve_def strOrNull_Some lookup_by_uuid errorToString_def
      split: sum.splits)

lemma compare_resolve_by_uuid:
  assumes "u \<noteq> []" and "getRecordWithUuid app u = Some h"
  shows "compare_resolve (strOrNull d) (strOrNull (Some u)) app =
           (case getDatabase app d of
              Inl msg \<Rightarrow> Inl (''Error: '' @ msg)
            | Inr targetDatabase \<Rightarrow> Inr h)"
  using assms
  by (simp add: compare_resolve_def strOrNull_Some lookup_by_uuid errorToString_def
      split: sum.splits)

lemma search_by_uuid:
  assumes "u \<noteq> []" and "getRecordWithUuid app u = Some h"
    and "search_validate safe input = None" and "si_groupUuid input = Some u"
    and "si_useCurrentGroup input \<noteq> Some True"
  shows "search safe env input app =
           Executed
             (case getDatabase app (si_databaseName input) of
                Inl msg \<Rightarrow> searchFailure (''Error: '' @ msg)
              | Inr targetDatabase \<Rightarrow>
                  if \<not> se_isGroup env (snd h)
                  then searchFailure (''Specified record is not a group. Type: '' @
                                      r_recordType (snd h))
                  else (case se_search env app (se_escapeSearchQuery env (si_query input))
                               \<lparr>so_in = Some (InRecord h),
                                so_comparison = (if truthy (si_comparison input)
                                                 then si_comparison input else None),
                                so_excludeSubgroups = si_excludeSubgroups input\<rparr> of
                          Inl thrown \<Rightarrow> searchFailure (''Error executing search: '' @ thrown)
                        | Inr searchResults \<Rightarrow>
                            search_results (si_recordType input)
                              (case si_limit input of None \<Rightarrow> 50 | Some l \<Rightarrow> l)
                              searchResults))
             app"
  using assms
  by (simp add: search_def search_script_def search_scope_def strOrNull_Some lookup_by_uuid
      errorToString_def Let_def truthy_def split: sum.splits)

text \<open>
  C1, as stated, fails. With the UUID of the note, \<open>renameRecord\<close> succeeds when no
  database name is given and fails when the name of another open database is given: the
  script compares the name with the database of the record it found. \<open>moveRecord\<close>
  succeeds when no database name is given and fails when the name of no open database is
  given: the script resolves the database before it looks at the UUID.
\<close>

theorem uuid_with_databaseName_can_fail:
  "renameRecord isJXASafeString ''AAAA-1111'' ''Renamed'' None exampleApp =
     Executed succeeded (setName exampleApp (0, exampleNote) ''Renamed'')
   \<and> renameRecord isJXASafeString ''AAAA-1111'' ''Renamed'' (Some ''Research'') exampleApp =
     Executed (failure ''Record with UUID AAAA-1111 not found in database Research'') exampleApp
   \<and> moveRecord isJXASafeString exampleMove (Some ''AAAA-1111'') None None None
         (Some ''BBBB-2222'') None exampleApp =
     Executed \<lparr>success = True, error = None, newLocation = Some ''/''\<rparr> exampleApp
   \<and> moveRecord isJXASafeString exampleMove (Some ''AAAA-1111'') None None None
         (Some ''BBBB-2222'') (Some ''NoSuchDB'') exampleApp =
     Executed (moveFailure ''Error: Database not found: NoSuchDB'') exampleApp"
proof -
  have u: "''AAAA-1111'' \<noteq> []" and n: "''Renamed'' \<noteq> []" by simp_all
  have g: "getRecordWithUuid exampleApp ''BBBB-2222'' = Some (1, exampleGroup)"
    by (simp add: getRecordWithUuid_def example_defs)
  have r1: "renameRecord_validate isJXASafeString ''AAAA-1111'' ''Renamed'' None = None"
    and r2: "renameRecord_validate isJXASafeString ''AAAA-1111'' ''Renamed'' (Some ''Research'')
               = None"
    by (simp_all add: renameRecord_validate_def sanitizer_defs)
  have m1: "moveRecord_validate isJXASafeString (Some ''AAAA-1111'') None None
              (Some ''BBBB-2222'') None = None"
    and m2: "moveRecord_validate isJXASafeString (Some ''AAAA-1111'') None None
              (Some ''BBBB-2222'') (Some ''NoSuchDB'') = None"
    by (simp_all add: moveRecord_validate_def sanitizer_defs)
  have d: "getDatabase exampleApp (Some ''NoSuchDB'') = Inl ''Database not found: NoSuchDB''"
    by (simp add: getDatabase_def strOrNull_def exampleApp_def)
  show ?thesis
    using renameRecord_by_uuid [OF u example_lookup_note r1 n]
      renameRecord_by_uuid [OF u example_lookup_note r2 n]
      moveRecord_by_uuid [OF u example_lookup_note m1, of exampleMove None]
      moveRecord_by_uuid [OF u example_lookup_note m2, of exampleMove None]
    by (simp add: g d example_current_database truthy_def orEmpty_def strOrNull_def
        exampleMove_def)
       (simp add: example_defs)
qed

text \<open>
  C1, amended. Let \<open>u\<close> be a UUID that is present and that an open record \<open>h\<close> has, and let
  the input pass the validation of the operation. The record each operation below
  resolves is \<open>h\<close>, whose UUID is \<open>u\<close>: no id, path or name that comes with the UUID, and no
  database name, makes it another record. The database name decides only whether the
  operation goes on. \<open>getRecordByIdentifier\<close> ignores it and returns the properties of \<open>h\<close>.
  \<open>renameRecord\<close> (given a new name that is not empty), \<open>removeTags\<close> and
  \<open>getRecordContent\<close> fail when a name is given that is not the name of the database of
  \<open>h\<close>, and otherwise act on \<open>h\<close>. \<open>deleteRecord\<close>, \<open>moveRecord\<close>, \<open>getRecordProperties\<close>,
  \<open>setRecordProperties\<close>, \<open>convertRecord\<close>, \<open>replicateRecord\<close>, \<open>duplicateRecord\<close>,
  \<open>classify\<close> and \<open>compare\<close> fail with the text of the error of \<open>getDatabase\<close> when the
  name does not resolve (or none is given and no database is current), and otherwise act
  on \<open>h\<close> whichever database the name resolved to. So does \<open>search\<close>, when it is not told to
  use the current group, for the group it is told to search in by UUID.
\<close>

theorem uuid_resolution:
  assumes "u \<noteq> []" and "getRecordWithUuid app u = Some h"
  shows "r_uuid (snd h) = u
       \<and> (getRecordByIdentifier_validate safe (Some u) d = None \<longrightarrow>
            getRecordByIdentifier safe (Some u) i d app =
              Executed \<lparr>success = True, error = None, rr_record = Some (snd h)\<rparr> app)
       \<and> (renameRecord_validate safe u newName d = None \<and> newName \<noteq> [] \<longrightarrow>
            renameRecord safe u newName d app =
              (if truthy d \<and> Some (r_database (snd h)) \<noteq> d
               then Executed (failure (''Record with UUID '' @ u @ '' not found in database '' @
                                       orEmpty d)) app
               else Executed succeeded (setName app h newName)))
       \<and> (removeTags_validate safe u tags d = None \<longrightarrow>
            removeTags safe u tags d app =
              (if truthy d \<and> Some (r_database (snd h)) \<noteq> d
               then Executed (failure (''Record with UUID '' @ u @ '' not found in database '' @
                                       orEmpty d)) app
               else Executed succeeded
                      (setTags app h (filter (\<lambda>tag. tag \<notin> set tags) (r_tags (snd h))))))
       \<and> (getRecordContent_validate safe u d = None \<longrightarrow>
            getRecordContent safe plainText richText u d app =
              (if truthy d \<and> Some (r_database (snd h)) \<noteq> d
               then Executed (contentFailure (''Record with UUID '' @ u @
                                              '' not found in database '' @ orEmpty d)) app
               else Executed \<lparr>success = True, error = None,
                               rc_content = Some (if r_recordType (snd h) = ''rtf''
                                                  then richText (snd h)
                                                  else plainText (snd h))\<rparr> app))
       \<and> (deleteRecord_validate safe (Some u) recordPath d = None \<longrightarrow>
            deleteRecord safe delete (Some u) recordId recordPath d app =
              (case getDatabase app d of
                 Inl msg \<Rightarrow> Executed (failure (''Error: '' @ msg)) app
               | Inr targetDatabase \<Rightarrow>
                   (case delete app h of
                      (Inl thrown, app') \<Rightarrow> Executed (failure thrown) app'
                    | (Inr deleted, app') \<Rightarrow>
                        Executed \<lparr>success = deleted, error = None\<rparr> app')))
       \<and> (moveRecord_validate safe (Some u) recordName recordPath destinationGroupUuid d = None \<longrightarrow>
            moveRecord safe move (Some u) recordId recordName recordPath destinationGroupUuid d
                app =
              (case getDatabase app d of
                 Inl msg \<Rightarrow> Executed (moveFailure (''Error: '' @ msg)) app
               | Inr targetDatabase \<Rightarrow>
                   (case (case strOrNull destinationGroupUuid of
                            None \<Rightarrow> None
                          | Some g \<Rightarrow> getRecordWithUuid app g) of
                      None \<Rightarrow>
                        Executed (moveFailure
                                    (''Error: Destination group with UUID not found: '' @
                                     orElse destinationGroupUuid ''unknown'')) app
                    | Some destinationGroupRecord \<Rightarrow>
                        if r_recordType (snd destinationGroupRecord) \<noteq> ''group'' \<and>
                           r_recordType (snd destinationGroupRecord) \<noteq> ''smart group''
                        then Executed (moveFailure
                               (''Error: Destination is not a group. Record type: '' @
                                r_recordType (snd destinationGroupRecord))) app
                        else (case move app h destinationGroupRecord of
                                (Inl thrown, app') \<Rightarrow> Executed (moveFailure thrown) app'
                              | (Inr None, app') \<Rightarrow>
                                  Executed (moveFailure ''Failed to move record'') app'
                              | (Inr (Some moved), app') \<Rightarrow>
                                  Executed \<lparr>success = True, error = None,
                                            newLocation = Some (r_location moved)\<rparr> app'))))
       \<and> (getRecordProperties_validate safe (Some u) recordPath d = None \<longrightarrow>
            getRecordProperties_targetRecord safe (Some u) recordId recordPath d app =
              (case getDatabase app d of
                 Inl msg \<Rightarrow> Inl (''Error: '' @ msg) | Inr targetDatabase \<Rightarrow> Inr h))
       \<and> (setRecordProperties_validate safe (Some u) recordPath d comment = None \<longrightarrow>
            setRecordProperties_rec safe (Some u) recordId recordPath d comment app =
              (case getDatabase app d of
                 Inl msg \<Rightarrow> Inl (''Error: '' @ msg) | Inr targetDatabase \<Rightarrow> Inr h))
       \<and> (convertRecord_validate safe (Some u) recordPath destinationGroupUuid d = None \<longrightarrow>
            convertRecord_sourceRecord safe (Some u) recordId recordPath destinationGroupUuid d
                app =
              (case getDatabase app d of
                 Inl msg \<Rightarrow> Inl (''Error: '' @ msg) | Inr sourceDatabase \<Rightarrow> Inr h))
       \<and> (replicateRecord_validate safe (Some u) recordPath destinationGroupUuid d = None \<longrightarrow>
            replicateRecord_sourceRecord safe (Some u) recordId recordPath destinationGroupUuid d
                app =
              (case getDatabase app d of
                 Inl msg \<Rightarrow> Inl (''Error: '' @ msg) | Inr targetDatabase \<Rightarrow> Inr h))
       \<and> (duplicateRecord_validate safe (Some u) recordPath destinationGroupUuid d = None \<longrightarrow>
            duplicateRecord_sourceRecord safe (Some u) recordId recordPath destinationGroupUuid d
                app =
              (case getDatabase app d of
                 Inl msg \<Rightarrow> Inl (''Error: '' @ msg) | Inr sourceDatabase \<Rightarrow> Inr h))
       \<and> (classify_validate safe u d comparison = None \<longrightarrow>
            classify_targetRecord safe u d comparison app =
              (case getDatabase app d of
                 Inl msg \<Rightarrow> Inl (''Error: '' @ msg) | Inr targetDatabase \<Rightarrow> Inr h))
       \<and> (compare_validate safe u compareWithUuid d comparison = None \<longrightarrow>
            compare_primaryRecord safe u compareWithUuid d comparison app =
              (case getDatabase app d of
                 Inl msg \<Rightarrow> Inl (''Error: '' @ msg) | Inr targetDatabase \<Rightarrow> Inr h))
       \<and> (search_validate safe input = None \<and> si_groupUuid input = Some u \<and>
          si_useCurrentGroup input \<noteq> Some True \<longrightarrow>
            search safe env input app =
              Executed
                (case getDatabase app (si_databaseName input) of
                   Inl msg \<Rightarrow> searchFailure (''Error: '' @ msg)
                 | Inr targetDatabase \<Rightarrow>
                     if \<not> se_isGroup env (snd h)
                     then searchFailure (''Specified record is not a group. Type: '' @
                                         r_recordType (snd h))
                     else (case se_search env app (se_escapeSearchQuery env (si_query input))
                                  \<lparr>so_in = Some (InRecord h),
                                   so_comparison = (if truthy (si_comparison input)
                                                    then si_comparison input else None),
                                   so_excludeSubgroups = si_excludeSubgroups input\<rparr> of
                             Inl thrown \<Rightarrow> searchFailure (''Error executing search: '' @ thrown)
                           | Inr searchResults \<Rightarrow>
                               search_results (si_recordType input)
                                 (case si_limit input of None \<Rightarrow> 50 | Some l \<Rightarrow> l)
                                 searchResults))
                app)"
proof -
  have uuid: "r_uuid (snd h) = u"
    using assms(2) firstMatch_holds [of "\<lambda>r. r_uuid r = u" "records app" "fst h" "snd h"]
    by (simp add: getRecordWithUuid_def)
  note a = addressedRecord_by_uuid [OF assms]
  show ?thesis
    apply (rule conjI, rule uuid)
    apply (rule conjI, rule impI, erule getRecordByIdentifier_by_uuid [OF assms])
    apply (rule conjI, rule impI, erule conjE, erule (1) renameRecord_by_uuid [OF assms])
    apply (rule conjI, rule impI, erule removeTags_by_uuid [OF assms])
    apply (rule conjI, rule impI, erule getRecordContent_by_uuid [OF assms])
    apply (rule conjI, rule impI, erule deleteRecord_by_uuid [OF assms])
    apply (rule conjI, rule impI, erule moveRecord_by_uuid [OF assms])
    apply (rule conjI, rule impI, simp add: getRecordProperties_targetRecord_def a)
    apply (rule conjI, rule impI, simp add: setRecordProperties_rec_def a)
    apply (rule conjI, rule impI, simp add: convertRecord_sourceRecord_def a)
    apply (rule conjI, rule impI, simp add: replicateRecord_sourceRecord_def a)
    apply (rule conjI, rule impI, simp add: duplicateRecord_sourceRecord_def a)
    apply (rule conjI, rule impI, simp add: classify_targetRecord_def
             classify_resolve_by_uuid [OF assms])
    apply (rule conjI, rule impI, simp add: compare_primaryRecord_def
             compare_resolve_by_uuid [OF assms])
    apply (rule impI, (erule conjE)+, rule search_by_uuid [OF assms], assumption+)
    done
qed

text \<open>
  A witness for C1 as amended: the note of the example, asked for with an id and the name
  of a database it is not in, renamed under that name, deleted under the name of no open
  database, and resolved for its properties.
\<close>

theorem uuid_resolution_witness:
  "r_uuid exampleNote = ''AAAA-1111''
   \<and> getRecordByIdentifier isJXASafeString (Some ''AAAA-1111'') (Some 5) (Some ''Research'')
         exampleApp =
       Executed \<lparr>success = True, error = None, rr_record = Some exampleNote\<rparr> exampleApp
   \<and> renameRecord isJXASafeString ''AAAA-1111'' ''Renamed'' (Some ''Research'') exampleApp =
       Executed (failure ''Record with UUID AAAA-1111 not found in database Research'') exampleApp
   \<and> deleteRecord isJXASafeString refusingDelete (Some ''AAAA-1111'') (Some 99) None
         (Some ''NoSuchDB'') exampleApp =
       Executed (failure ''Error: Database not found: NoSuchDB'') exampleApp
   \<and> getRecordProperties_targetRecord isJXASafeString (Some ''AAAA-1111'') (Some 99) None
         (Some ''Research'') exampleApp =
       Inr (0, exampleNote)"
proof -
  have u: "''AAAA-1111'' \<noteq> []" by simp
  note research =
    uuid_resolution [where u = "''AAAA-1111''" and app = exampleApp and h = "(0, exampleNote)"
      and safe = isJXASafeString and d = "Some ''Research''" and i = "Some 5"
      and newName = "''Renamed''" and recordId = "Some 99" and recordPath = None,
      OF u example_lookup_note]
  note missing =
    uuid_resolution [where u = "''AAAA-1111''" and app = exampleApp and h = "(0, exampleNote)"
      and safe = isJXASafeString and d = "Some ''NoSuchDB''" and recordId = "Some 99"
      and recordPath = None and delete = refusingDelete,
      OF u example_lookup_note]
  have v1: "getRecordByIdentifier_validate isJXASafeString (Some ''AAAA-1111'') (Some ''Research'')
              = None"
    by (simp add: getRecordByIdentifier_validate_def sanitizer_defs)
  have v2: "renameRecord_validate isJXASafeString ''AAAA-1111'' ''Renamed'' (Some ''Research'')
              = None \<and> ''Renamed'' \<noteq> []"
    by (simp add: renameRecord_validate_def sanitizer_defs)
  have v3: "deleteRecord_validate isJXASafeString (Some ''AAAA-1111'') None (Some ''NoSuchDB'')
              = None"
    by (simp add: deleteRecord_validate_def sanitizer_defs)
  have v4: "getRecordProperties_validate isJXASafeString (Some ''AAAA-1111'') None
              (Some ''Research'') = None"
    by (simp add: getRecordProperties_validate_def sanitizer_defs)
  have d1: "getDatabase exampleApp (Some ''NoSuchDB'') = Inl ''Database not found: NoSuchDB''"
    by (simp add: getDatabase_def strOrNull_def exampleApp_def)
  have d2: "getDatabase exampleApp (Some ''Research'') = Inr \<lparr>db_name = ''Research''\<rparr>"
    by (simp add: getDatabase_def strOrNull_def exampleApp_def)
  have c1: "r_uuid exampleNote = ''AAAA-1111''"
    using research [THEN conjunct1] by simp
  have c2: "getRecordByIdentifier isJXASafeString (Some ''AAAA-1111'') (Some 5) (Some ''Research'')
         exampleApp =
       Executed \<lparr>success = True, error = None, rr_record = Some exampleNote\<rparr> exampleApp"
    using research [THEN conjunct2, THEN conjunct1, rule_format, OF v1] by simp
  have c3: "renameRecord isJXASafeString ''AAAA-1111'' ''Renamed'' (Some ''Research'') exampleApp =
       Executed (failure ''Record with UUID AAAA-1111 not found in database Research'') exampleApp"
    using research [THEN conjunct2, THEN conjunct2, THEN conjunct1, rule_format, OF v2]
    by (simp add: truthy_def orEmpty_def exampleNote_def)
  have c6: "deleteRecord isJXASafeString refusingDelete (Some ''AAAA-1111'') (Some 99) None
         (Some ''NoSuchDB'') exampleApp =
       Executed (failure ''Error: Database not found: NoSuchDB'') exampleApp"
    using missing [THEN conjunct2, THEN conjunct2, THEN conjunct2, THEN conjunct2,
                   THEN conjunct2, THEN conjunct1, rule_format, OF v3]
    by (simp add: d1)
  have c8: "getRecordProperties_targetRecord isJXASafeString (Some ''AAAA-1111'') (Some 99) None
         (Some ''Research'') exampleApp =
       Inr (0, exampleNote)"
    using research [THEN conjunct2, THEN conjunct2, THEN conjunct2, THEN conjunct2,
                    THEN conjunct2, THEN conjunct2, THEN conjunct2, THEN conjunct1,
                    rule_format, OF v4]
    by (simp add: d2)
  from c1 c2 c3 c6 c8 show ?thesis by simp
qed

subsection \<open>Moving to a destination that is not a group\<close>

text \<open>
  C6, as stated, fails in its second case. When the destination UUID resolves to a record
  that is not a group (here the PDF of the example), the failure names the record type and
  does not mention the destination UUID.
\<close>

theorem moveRecord_non_group_error:
  "moveRecord isJXASafeString exampleMove (Some ''AAAA-1111'') None None None
       (Some ''CCCC-3333'') None exampleApp =
     Executed (moveFailure ''Error: Destination is not a group. Record type: PDF'') exampleApp
   \<and> \<not> sublist ''CCCC-3333'' ''Error: Destination is not a group. Record type: PDF''"
proof
  show "moveRecord isJXASafeString exampleMove (Some ''AAAA-1111'') None None None
       (Some ''CCCC-3333'') None exampleApp =
     Executed (moveFailure ''Error: Destination is not a group. Record type: PDF'') exampleApp"
    by (simp add: moveRecord_def moveRecord_validate_def moveRecord_script_def sanitizer_defs
        example_current_database getRecord_by_uuid example_lookup_note example_lookup_pdf
        found_def strOrNull_def)
       (simp add: examplePdf_def errorToString_def)
  show "\<not> sublist ''CCCC-3333'' ''Error: Destination is not a group. Record type: PDF''"
    by code_simp
qed

text \<open>
  C6, amended. Let the input pass the sanitizer, the database resolve and the UUID
  identify a record. If the destination UUID resolves to no record, \<open>moveRecord\<close> fails with
  a message that ends in the destination UUID; if it resolves to a record that is neither
  a group nor a smart group, \<open>moveRecord\<close> fails with a message that names the record type.
  In both cases the application is left as it was, whatever the \<open>move\<close> command would do:
  the command is not reached.
\<close>

theorem moveRecord_unresolved_destination:
  assumes "moveRecord_validate safe (Some x) recordName recordPath (Some y) databaseName = None"
    and "getDatabase app databaseName = Inr db"
    and "x \<noteq> []" and "getRecordWithUuid app x = Some h"
    and "y \<noteq> []"
  shows "(getRecordWithUuid app y = None \<longrightarrow>
            moveRecord safe move (Some x) recordId recordName recordPath (Some y) databaseName app =
              Executed (moveFailure (''Error: Destination group with UUID not found: '' @ y)) app)
       \<and> (\<forall>g. getRecordWithUuid app y = Some g \<and> r_recordType (snd g) \<noteq> ''group'' \<and>
                r_recordType (snd g) \<noteq> ''smart group'' \<longrightarrow>
            moveRecord safe move (Some x) recordId recordName recordPath (Some y) databaseName app =
              Executed (moveFailure (''Error: Destination is not a group. Record type: '' @
                                     r_recordType (snd g))) app)"
proof -
  have sx: "strOrNull (Some x) = Some x" and sy: "strOrNull (Some y) = Some y"
    using assms(3,5) by (simp_all add: strOrNull_def)
  have look: "lr_record (getRecord app \<lparr>lo_uuid = Some x, lo_id = recordId,
                 lo_path = strOrNull recordPath, lo_name = strOrNull recordName,
                 lo_database = Some db\<rparr>) = Some h"
    using assms(3,4) by (simp add: getRecord_by_uuid found_def)
  show ?thesis
    using assms(1,2,5) look
    by (simp add: moveRecord_def moveRecord_script_def sx sy orElse_def errorToString_def)
qed

text \<open>
  A witness for C6 as amended: the note of the example moved to a UUID that no record has,
  and to the PDF.
\<close>

theorem moveRecord_unresolved_destination_witness:
  "moveRecord isJXASafeString exampleMove (Some ''AAAA-1111'') None None None
       (Some ''ZZZZ-0000'') None exampleApp =
     Executed (moveFailure ''Error: Destination group with UUID not found: ZZZZ-0000'') exampleApp
   \<and> moveRecord isJXASafeString exampleMove (Some ''AAAA-1111'') None None None
       (Some ''CCCC-3333'') None exampleApp =
     Executed (moveFailure ''Error: Destination is not a group. Record type: PDF'') exampleApp"
proof -
  have h1: "moveRecord_validate isJXASafeString (Some ''AAAA-1111'') None None
              (Some ''ZZZZ-0000'') None = None"
    by (simp add: moveRecord_validate_def sanitizer_defs)
  have h1': "moveRecord_validate isJXASafeString (Some ''AAAA-1111'') None None
              (Some ''CCCC-3333'') None = None"
    by (simp add: moveRecord_validate_def sanitizer_defs)
  have h3: "''AAAA-1111'' \<noteq> []" and h5: "''ZZZZ-0000'' \<noteq> []" and h5': "''CCCC-3333'' \<noteq> []"
    by simp_all
  show ?thesis
    using moveRecord_unresolved_destination
        [OF h1 example_current_database h3 example_lookup_note h5, of exampleMove None]
      moveRecord_unresolved_destination
        [OF h1' example_current_database h3 example_lookup_note h5', of exampleMove None]
    by (simp add: example_lookup_missing example_lookup_pdf) (simp add: examplePdf_def)
qed

subsection \<open>A failed deletion\<close>

text \<open>
  C4 does not hold of \<open>deleteRecord\<close>. When the application's \<open>delete\<close> command returns
  \<open>false\<close>, the script prints an object with \<open>success\<close> false and no \<open>error\<close> at all.
\<close>

theorem deleteRecord_false_without_error:
  "deleteRecord isJXASafeString refusingDelete (Some ''AAAA-1111'') None None None exampleApp =
     Executed \<lparr>success = False, error = None\<rparr> exampleApp"
  by (simp add: deleteRecord_def deleteRecord_validate_def deleteRecord_script_def sanitizer_defs
      example_current_database getRecord_by_uuid example_lookup_note found_def strOrNull_def
      refusingDelete_def)

subsection \<open>The limit of a search\<close>

text \<open>
  C10 does not hold for a negative limit. With three matches and the limit \<open>-1\<close> the
  script returns two results: \<open>slice(0, -1)\<close> drops the last element.
\<close>

theorem search_negative_limit:
  "search isJXASafeString exampleSearchEnv (exampleSearchInput (Some (- 1))) exampleApp =
     Executed \<lparr>success = True, error = None, results = Some [exampleNote, exampleGroup],
               totalCount = Some 3\<rparr> exampleApp"
  by (simp add: search_def search_validate_def search_script_def search_scope_def
      search_results_def slice0_def exampleSearchEnv_def exampleSearchInput_def sanitizer_defs
      getDatabase_def strOrNull_def truthy_def numTruthy_def exampleApp_def)

text \<open>
  For a limit that is not negative the script does what C10 says: it returns the first
  \<open>limit\<close> records that pass the filter and counts all that pass; with no match, or with
  no match that passes the filter, it returns no results and the count zero; and a limit
  left out is 50.
\<close>

lemma search_results_nonnegative_limit:
  "0 \<le> limit \<Longrightarrow>
   results (search_results pRecordType limit hits) =
     Some (take (nat limit) (if truthy pRecordType
                             then filter (\<lambda>r. Some (r_recordType r) = pRecordType) hits
                             else hits))
   \<and> totalCount (search_results pRecordType limit hits) =
     Some (length (if truthy pRecordType
                   then filter (\<lambda>r. Some (r_recordType r) = pRecordType) hits
                   else hits))"
  by (simp add: search_results_def slice0_def Let_def)

lemma search_results_no_match:
  "search_results pRecordType limit [] =
     \<lparr>success = True, error = None, results = Some [], totalCount = Some 0\<rparr>"
  by (simp add: search_results_def)

lemma search_results_none_pass:
  "truthy pRecordType \<Longrightarrow>
   filter (\<lambda>r. Some (r_recordType r) = pRecordType) hits = [] \<Longrightarrow>
   results (search_results pRecordType limit hits) = Some [] \<and>
   totalCount (search_results pRecordType limit hits) = Some 0"
  by (simp add: search_results_def slice0_def Let_def)

lemma search_default_limit:
  "search_validate safe input = None \<Longrightarrow> si_limit input = None \<Longrightarrow>
   search safe env input app =
     Executed (search_script env (se_escapeSearchQuery env (si_query input))
                 (strOrNull (si_groupUuid input)) (si_groupId input)
                 (strOrNull (si_groupPath input)) (strOrNull (si_databaseName input))
                 (si_useCurrentGroup input = Some True) (si_recordType input)
                 (si_comparison input) (si_excludeSubgroups input) 50 app) app"
  by (simp add: search_def)

subsection \<open>Resolving a database by name\<close>

lemma find_first:
  "list_all (\<lambda>x. \<not> P x) before \<Longrightarrow> P x \<Longrightarrow> find P (before @ x # after) = Some x"
  by (induction before) auto

lemma find_none: "list_all (\<lambda>x. \<not> P x) xs \<Longrightarrow> find P xs = None"
  by (induction xs) auto




text \<open>The injected helper, as modelled from the spec, resolves a name the same way.\<close>

lemma getDatabase_by_name:
  assumes "n \<noteq> []"
  shows "(databases app = before @ db # after \<and> db_name db = n \<and>
          list_all (\<lambda>d. db_name d \<noteq> n) before \<longrightarrow> getDatabase app (Some n) = Inr db)
       \<and> (list_all (\<lambda>d. db_name d \<noteq> n) (databases app) \<longrightarrow>
            getDatabase app (Some n) = Inl (''Database not found: '' @ n))"
  using assms by (auto simp: getDatabase_def strOrNull_def find_first find_none)

subsection \<open>An unknown tool\<close>

text \<open>
  C9. A call that names no tool of the table ends in the error \<open>MethodNotFound\<close> with the
  message \<open>Unknown tool: name\<close>, and the world is as it was: since this holds whatever the
  tools' \<open>run\<close> functions do to the world, none of them ran.
\<close>

theorem unknown_tool_not_found:
  "name \<notin> set (map t_name tools) \<Longrightarrow>
   callTool tools emptyArguments name arguments world =
     (Inl (McpError MethodNotFound (''Unknown tool: '' @ name)), world)"
proof -
  assume "name \<notin> set (map t_name tools)"
  then have "list_all (\<lambda>t. \<not> t_name t = name) tools"
    by (induction tools) auto
  then have "find (\<lambda>t. t_name t = name) tools = None"
    by (rule find_none)
  then show ?thesis
    by (simp add: callTool_def)
qed

text \<open>
  A witness for C9: the table of \<open>createServer\<close> has no tool \<open>empty_trash\<close>, and the count
  of runs stays at zero. A known tool does run.
\<close>

theorem unknown_tool_not_found_witness:
  "callTool exampleTools () ''empty_trash'' None 0 =
     (Inl (McpError MethodNotFound ''Unknown tool: empty_trash''), 0)"
proof -
  have h: "''empty_trash'' \<notin> set (map t_name exampleTools)"
    by (simp add: exampleTools_def toolNames_def)
  show ?thesis
    using unknown_tool_not_found [OF h, of "()" None 0] by simp
qed

lemma example_known_tool_runs:
  "callTool exampleTools () ''is_running'' None 0 = (Inr (), 1)"
  by (simp add: callTool_def exampleTools_def toolNames_def)

subsection \<open>What reaches the text of a script\<close>

lemma render_append [simp]: "render e (fs @ gs) = render e fs @ render e gs"
  by (simp add: render_def)

lemma render_Cons [simp]: "render e (f # fs) = renderFragment e f @ render e fs"
  by (simp add: render_def)

lemma render_Nil [simp]: "render e [] = []"
  by (simp add: render_def)

lemma joinLines_split:
  "l \<in> set ls \<Longrightarrow> \<exists>pre post. joinLines ls = pre @ l @ post"
proof (induction ls rule: joinLines.induct)
  case 1
  then show ?case by simp
next
  case (2 l')
  then have "joinLines [l'] = [] @ l @ []" by simp
  then show ?case by blast
next
  case (3 l' v va)
  show ?case
  proof (cases "l = l'")
    case True
    then have "joinLines (l' # v # va) = [] @ l @ (Lit newline # joinLines (v # va))" by simp
    then show ?thesis by blast
  next
    case False
    with 3 obtain pre post where "joinLines (v # va) = pre @ l @ post" by auto
    then have "joinLines (l' # v # va) = (l' @ Lit newline # pre) @ l @ post" by simp
    then show ?thesis by blast
  qed
qed

lemma line_in_script:
  assumes "l \<in> set ls"
  shows "sublist (render e l) (render e (joinLines ls))"
proof -
  from joinLines_split [OF assms] obtain pre post where "joinLines ls = pre @ l @ post"
    by blast
  then have "render e (joinLines ls) = render e pre @ render e l @ render e post" by simp
  then show ?thesis unfolding sublist_def by blast
qed

lemma fragment_in_script:
  "l \<in> set ls \<Longrightarrow> f \<in> set l \<Longrightarrow> f \<in> set (joinLines ls)"
  using joinLines_split [of l ls] by auto

text \<open>
  C2 does not hold of \<open>createRecord\<close>. The caller's \<open>name\<close> is a fragment of the template
  put in as it is, and the text of the script holds it unchanged between the double quotes
  after \<open>name:\<close>, whatever characters it has and whatever the escaper would do.
\<close>

theorem createRecord_interpolates_untreated:
  \<open>Raw name \<in> set (createRecord_template name type content url parentGroupUuid databaseName)
   \<and> sublist (''          name: "'' @ name @ ''",'')
        (render escapeStringForJXA
           (createRecord_template name type content url parentGroupUuid databaseName))\<close>
proof
  let ?l = \<open>[Lit ''          name: "'', Raw name, Lit ''",'']\<close>
  show \<open>Raw name \<in> set (createRecord_template name type content url parentGroupUuid databaseName)\<close>
    unfolding createRecord_template_def
    by (rule fragment_in_script [of ?l]) simp_all
  have \<open>sublist (render escapeStringForJXA ?l)
          (render escapeStringForJXA
             (createRecord_template name type content url parentGroupUuid databaseName))\<close>
    unfolding createRecord_template_def
    by (rule line_in_script) simp
  then show \<open>sublist (''          name: "'' @ name @ ''",'')
        (render escapeStringForJXA
           (createRecord_template name type content url parentGroupUuid databaseName))\<close>
    by simp
qed

text \<open>
  So a name with a double quote closes the literal early, and what follows the quote in
  the name is read as code of the script: in the script below, as a second key of
  \<open>recordProps\<close>.
\<close>

lemma createRecord_injection_example:
  \<open>sublist ''          name: "x", type: "group",''
     (render escapeStringForJXA
        (createRecord_template ''x", type: "group'' ''markdown'' None None None None))\<close>
proof -
  let ?l = \<open>[Lit ''          name: "'', Raw ''x", type: "group'', Lit ''",'']\<close>
  have \<open>sublist (render escapeStringForJXA ?l)
          (render escapeStringForJXA
             (createRecord_template ''x", type: "group'' ''markdown'' None None None None))\<close>
    unfolding createRecord_template_def
    by (rule line_in_script) simp
  then show ?thesis by simp
qed

text \<open>
  By contrast every fragment of \<open>buildDatabaseLookup\<close> is fixed text or escaped, while the
  template of \<open>createRecord\<close> has fragments that are neither.
\<close>

lemma buildDatabaseLookup_treated: "list_all treated (buildDatabaseLookup databaseName)"
  by (simp add: buildDatabaseLookup_def)

lemma createRecord_not_treated:
  "\<not> list_all treated
       (createRecord_template name type content url parentGroupUuid databaseName)"
proof -
  let ?l = \<open>[Lit ''          name: "'', Raw name, Lit ''",'']\<close>
  have "Raw name \<in> set (createRecord_template name type content url parentGroupUuid databaseName)"
    unfolding createRecord_template_def
    by (rule fragment_in_script [of ?l]) simp_all
  then show ?thesis
    by (force simp: list_all_iff)
qed

subsection \<open>How results and structured values are built\<close>

text \<open>
  C3, as stated, fails. The script of \<open>isRunning\<close> hands \<open>JSON.stringify\<close> an object literal
  in shorthand notation, and the script of \<open>createRecord\<close> hands it object literals for
  every result it returns.
\<close>

theorem scripts_serialise_object_literals:
  \<open>serialisesObjectLiteral isRunning_script
   \<and> serialisesObjectLiteral
        (render (\<lambda>s. s) (createRecord_template ''Note'' ''markdown'' None None None None))\<close>
proof
  have \<open>sublist (render id [Lit ''    JSON.stringify({ isRunning });'']) isRunning_script\<close>
    unfolding isRunning_script_def by (rule line_in_script) simp
  then have \<open>sublist (''    '' @ ''JSON.stringify({'' @ '' isRunning });'') isRunning_script\<close>
    by simp
  then show \<open>serialisesObjectLiteral isRunning_script\<close>
    unfolding serialisesObjectLiteral_def
    by (rule sublist_order.order_trans [rotated]) (rule sublist_appendI)
  have \<open>sublist (render (\<lambda>s. s) [Lit ''          return JSON.stringify({''])
          (render (\<lambda>s. s) (createRecord_template ''Note'' ''markdown'' None None None None))\<close>
    unfolding createRecord_template_def by (rule line_in_script) simp
  then have \<open>sublist (''          return '' @ ''JSON.stringify({'' @ [])
          (render (\<lambda>s. s) (createRecord_template ''Note'' ''markdown'' None None None None))\<close>
    by simp
  then show \<open>serialisesObjectLiteral
        (render (\<lambda>s. s) (createRecord_template ''Note'' ''markdown'' None None None None))\<close>
    unfolding serialisesObjectLiteral_def
    by (rule sublist_order.order_trans [rotated]) (rule sublist_appendI)
qed

text \<open>
  Reading a text piece by piece: the code of a text is the code of its pieces, each read
  in the mode the pieces before it end in.
\<close>

lemma codeOf_append: "codeOf m (a @ b) = codeOf m a @ codeOf (modeAfter m a) b"
  by (induction m a rule: codeOf.induct) auto

lemma modeAfter_append: "modeAfter m (a @ b) = modeAfter (modeAfter m a) b"
  by (induction m a rule: modeAfter.induct) auto

lemma bracesOk_mono: "bracesOk q a \<Longrightarrow> bracesOk (p @ q) a"
proof (induction a arbitrary: q)
  case Nil
  show ?case by simp
next
  case (Cons c a)
  from Cons.prems have "bracesOk (q @ [c]) a" by simp
  then have "bracesOk (p @ (q @ [c])) a" by (rule Cons.IH)
  moreover from Cons.prems
  have "c \<noteq> CHR ''{'' \<or> prefix ''}'' a \<or> suffix ''function() '' (p @ q)"
    by (auto simp: suffix_appendI)
  ultimately show ?case by simp
qed

lemma bracesOk_append: "bracesOk p a \<Longrightarrow> bracesOk (p @ a) b \<Longrightarrow> bracesOk p (a @ b)"
proof (induction a arbitrary: p)
  case Nil
  then show ?case by simp
next
  case (Cons c a)
  from Cons.prems have 1: "bracesOk (p @ [c]) a" and 2: "bracesOk ((p @ [c]) @ a) b" by simp_all
  have "bracesOk (p @ [c]) (a @ b)" using 1 2 by (rule Cons.IH)
  moreover from Cons.prems(1)
  have "c \<noteq> CHR ''{'' \<or> prefix ''}'' (a @ b) \<or> suffix ''function() '' p"
    by (auto intro: prefix_prefix)
  ultimately show ?case by simp
qed

lemma noKeyed_append:
  assumes "noKeyedObjectLiteral a" and "noKeyedObjectLiteral b"
  shows "noKeyedObjectLiteral (a @ b)"
proof -
  from assms have a: "modeAfter Code a = Code" "bracesOk [] (codeOf Code a)"
    and b: "modeAfter Code b = Code" "bracesOk [] (codeOf Code b)"
    by (simp_all add: noKeyedObjectLiteral_def)
  have "bracesOk ([] @ codeOf Code a) (codeOf Code b)"
    using bracesOk_mono [OF b(2), of "codeOf Code a"] by simp
  with a(2) have "bracesOk [] (codeOf Code a @ codeOf Code b)"
    by (rule bracesOk_append)
  then show ?thesis
    by (simp add: noKeyedObjectLiteral_def codeOf_append modeAfter_append a b)
qed


lemma digit_plain:
  fixes k :: nat
  assumes "k < 10"
  shows "char_of (48 + k) \<noteq> CHR 0x22 \<and> char_of (48 + k) \<noteq> CHR ''{''"
proof (intro conjI notI)
  assume "char_of (48 + k) = CHR 0x22"
  then have "of_char (char_of (48 + k) :: char) = (of_char (CHR 0x22) :: nat)" by simp
  then show False using assms by simp
next
  assume "char_of (48 + k) = CHR ''{''"
  then have "of_char (char_of (48 + k) :: char) = (of_char (CHR ''{'') :: nat)" by simp
  then show False using assms by simp
qed


lemma showNat_plain: "c \<in> set (showNat n) \<Longrightarrow> c \<noteq> CHR 0x22 \<and> c \<noteq> CHR ''{''"
proof (induction n rule: showNat.induct)
  case (1 n)
  show ?case
  proof (cases "n < 10")
    case True
    then have "showNat n = [char_of (48 + n)]"
      by (subst showNat.simps) (simp del: showNat.simps)
    with "1.prems" have "c = char_of (48 + n)" by (simp del: showNat.simps)
    with True show ?thesis by (simp del: showNat.simps add: digit_plain)
  next
    case False
    then have "showNat n = showNat (n div 10) @ [char_of (48 + n mod 10)]"
      by (subst showNat.simps) (simp del: showNat.simps)
    with "1.prems" have "c \<in> set (showNat (n div 10)) \<or> c = char_of (48 + n mod 10)"
      by (auto simp del: showNat.simps)
    then show ?thesis
    proof
      assume "c \<in> set (showNat (n div 10))"
      with False show ?thesis by (rule "1.IH")
    next
      assume "c = char_of (48 + n mod 10)"
      then show ?thesis by (simp del: showNat.simps add: digit_plain)
    qed
  qed
qed

lemma numberToString_plain:
  "c \<in> set (numberToString n) \<Longrightarrow> c \<noteq> CHR 0x22 \<and> c \<noteq> CHR ''{''"
proof (cases n)
  case (Decimal negative whole fraction exponent)
  assume c: "c \<in> set (numberToString n)"
  have d: "\<And>x. digit x \<noteq> CHR 0x22 \<and> digit x \<noteq> CHR ''{''"
    by (simp add: digit_def digit_plain)
  from c Decimal consider "c = CHR ''-''" | "c \<in> set (showNat whole)" | "c = CHR ''.''"
    | "c \<in> digit ` set fraction" | "c = CHR ''e''" | "c = CHR ''+''"
    | e where "exponent = Some e" "c \<in> set (showNat (nat \<bar>e\<bar>))"
    by (auto simp del: showNat.simps split: if_splits option.splits)
  then show ?thesis
  proof cases
    case 2
    then show ?thesis by (rule showNat_plain)
  next
    case 4
    then show ?thesis using d by auto
  next
    case 7
    then show ?thesis by (simp del: showNat.simps add: showNat_plain)
  qed simp_all
next
  case NotANumber
  assume "c \<in> set (numberToString n)"
  with NotANumber show ?thesis by auto
next
  case (Infinite negative)
  assume "c \<in> set (numberToString n)"
  with Infinite show ?thesis by (auto split: if_splits)
qed

lemma plain_code:
  "\<forall>c \<in> set a. c \<noteq> CHR 0x22 \<Longrightarrow> modeAfter Code a = Code \<and> codeOf Code a = a"
  by (induction a) auto

lemma plain_braces: "CHR ''{'' \<notin> set a \<Longrightarrow> bracesOk p a"
  by (induction a arbitrary: p) auto

lemma plain_noKeyed:
  assumes "\<And>c. c \<in> set a \<Longrightarrow> c \<noteq> CHR 0x22 \<and> c \<noteq> CHR ''{''"
  shows "noKeyedObjectLiteral a"
proof -
  from assms have "\<forall>c \<in> set a. c \<noteq> CHR 0x22" by blast
  then have "modeAfter Code a = Code \<and> codeOf Code a = a" by (rule plain_code)
  moreover from assms have "CHR ''{'' \<notin> set a" by blast
  then have "bracesOk [] a" by (rule plain_braces)
  ultimately show ?thesis by (simp add: noKeyedObjectLiteral_def)
qed

lemma quoted_noKeyed:
  assumes "literalBody body"
  shows "noKeyedObjectLiteral (dq @ body @ dq)"
proof -
  from assms have m: "modeAfter InString body = InString" and c: "codeOf InString body = []"
    by (simp_all add: literalBody_def)
  have "modeAfter Code (dq @ body @ dq) = Code"
    by (simp add: dq_def modeAfter_append m)
  moreover have "codeOf Code (dq @ body @ dq) = dq @ dq"
    by (simp add: dq_def codeOf_append m c)
  ultimately show ?thesis
    by (simp add: noKeyedObjectLiteral_def dq_def)
qed

lemma join_noKeyed:
  "noKeyedObjectLiteral sep \<Longrightarrow> list_all noKeyedObjectLiteral xs \<Longrightarrow>
   noKeyedObjectLiteral (join sep xs)"
proof (induction sep xs rule: join.induct)
  case (1 sep)
  show ?case by (simp add: noKeyedObjectLiteral_def)
next
  case (2 sep x)
  then show ?case by simp
next
  case (3 sep x y ys)
  then show ?case by (simp add: noKeyed_append)
qed


lemma fixed_noKeyed:
  "noKeyedObjectLiteral ''null''" "noKeyedObjectLiteral ''true''" "noKeyedObjectLiteral ''false''"
  "noKeyedObjectLiteral ''[''" "noKeyedObjectLiteral '']''" "noKeyedObjectLiteral '', ''"
  "noKeyedObjectLiteral '' ''" "noKeyedObjectLiteral ''(function() { ''"
  "noKeyedObjectLiteral ''const obj = {};''" "noKeyedObjectLiteral ''obj[''"
  "noKeyedObjectLiteral ''] = ''" "noKeyedObjectLiteral '';''"
  "noKeyedObjectLiteral '' return obj; })()''"
  by code_simp+

lemma shape_noKeyed: "declareAssignReturn text \<Longrightarrow> noKeyedObjectLiteral text"
proof (induction rule: declareAssignReturn.induct)
  case absent
  show ?case by (rule fixed_noKeyed)
next
  case (quoted body)
  then show ?case by (rule quoted_noKeyed)
next
  case (number n)
  show ?case by (rule plain_noKeyed) (rule numberToString_plain)
next
  case (boolean b)
  show ?case by (cases b) (simp_all only: if_True if_False fixed_noKeyed)
next
  case (sequence es)
  then have "list_all noKeyedObjectLiteral es"
    by (simp add: list_all_iff)
  then have "noKeyedObjectLiteral (join '', '' es)"
    by (rule join_noKeyed [OF fixed_noKeyed(6)])
  then show ?case
    by (intro noKeyed_append fixed_noKeyed)
next
  case (block assignments)
  have "list_all noKeyedObjectLiteral
          (map (\<lambda>a. ''obj['' @ dq @ fst a @ dq @ ''] = '' @ snd a @ '';'') assignments)"
    unfolding list_all_iff
  proof
    fix line
    assume "line \<in> set (map (\<lambda>a. ''obj['' @ dq @ fst a @ dq @ ''] = '' @ snd a @ '';'') assignments)"
    then obtain a where a: "a \<in> set assignments"
      and line: "line = ''obj['' @ (dq @ fst a @ dq) @ ''] = '' @ snd a @ '';''"
      by auto
    from a block(1) have "literalBody (fst a)" by (simp add: list_all_iff)
    then have k: "noKeyedObjectLiteral (dq @ fst a @ dq)" by (rule quoted_noKeyed)
    from a block(2) have v: "noKeyedObjectLiteral (snd a)" by (simp add: list_all_iff)
    show "noKeyedObjectLiteral line"
      unfolding line by (intro noKeyed_append fixed_noKeyed k v)
  qed
  then have "list_all noKeyedObjectLiteral
               (''const obj = {};'' #
                map (\<lambda>a. ''obj['' @ dq @ fst a @ dq @ ''] = '' @ snd a @ '';'') assignments)"
    by (simp add: fixed_noKeyed)
  then have "noKeyedObjectLiteral
               (join '' '' (''const obj = {};'' #
                  map (\<lambda>a. ''obj['' @ dq @ fst a @ dq @ ''] = '' @ snd a @ '';'') assignments))"
    by (rule join_noKeyed [OF fixed_noKeyed(7)])
  then show ?case
    by (intro noKeyed_append fixed_noKeyed)
qed


lemma formatValue_shape:
  assumes "\<And>s. literalBody (escapeStringForJXA s)"
  shows "declareAssignReturn (formatValue escapeStringForJXA v)"
proof (induction v)
  case JNull
  show ?case by (simp add: declareAssignReturn.absent)
next
  case JUndefined
  show ?case by (simp add: declareAssignReturn.absent)
next
  case (JString s)
  show ?case by (simp add: declareAssignReturn.quoted assms)
next
  case (JNumber n)
  show ?case by (simp add: declareAssignReturn.number)
next
  case (JBool b)
  show ?case using declareAssignReturn.boolean [of b] by simp
next
  case (JArray vs)
  then have "list_all declareAssignReturn (map (formatValue escapeStringForJXA) vs)"
    by (simp add: list_all_iff)
  then show ?case
    using declareAssignReturn.sequence by simp
next
  case (JObject kvs)
  let ?as = "map (\<lambda>kv. (escapeStringForJXA (fst kv), formatValue escapeStringForJXA (snd kv))) kvs"
  have "list_all literalBody (map fst ?as)"
    by (simp add: list_all_iff assms)
  moreover from JObject have "list_all declareAssignReturn (map snd ?as)"
    by (auto simp: list_all_iff snds.simps)
  ultimately have "declareAssignReturn
       (''(function() { '' @
        join '' '' (''const obj = {};'' #
                    map (\<lambda>a. ''obj['' @ dq @ fst a @ dq @ ''] = '' @ snd a @ '';'') ?as) @
        '' return obj; })()'')"
    by (rule declareAssignReturn.block)
  then show ?case by (simp add: comp_def)
qed

text \<open>
  C3, amended to the formatter. Let the escaper give, for every string, the body of a
  string literal. Then whatever value \<open>formatValue\<close> is given, the expression it writes has
  the shape \<open>declareAssignReturn\<close>: every object in the value, at any depth, is written as a
  block that declares an empty object, assigns each key in brackets and returns the bound
  identifier. And the expression holds no object literal with a key: outside its string
  literals every opening brace opens the body of such a block or the empty object it
  declares.
\<close>

theorem formatValue_declares_assigns_returns:
  assumes "\<And>s. literalBody (escapeStringForJXA s)"
  shows "declareAssignReturn (formatValue escapeStringForJXA v)
       \<and> noKeyedObjectLiteral (formatValue escapeStringForJXA v)"
proof
  show shape: "declareAssignReturn (formatValue escapeStringForJXA v)"
    using assms by (rule formatValue_shape)
  then show "noKeyedObjectLiteral (formatValue escapeStringForJXA v)"
    by (rule shape_noKeyed)
qed

text \<open>
  A witness for C3 as amended: the escaper of the example gives the body of a literal for
  every string, so the theorem holds of what \<open>formatValue\<close> writes with it, here for an
  object whose key holds a double quote and whose value is an array of a number and an
  empty object.
\<close>

lemma exampleEscaper_body: "literalBody (exampleEscaper s)"
proof -
  have "modeAfter InString (exampleEscaper s @ rest) = modeAfter InString rest
        \<and> codeOf InString (exampleEscaper s @ rest) = codeOf InString rest" for rest
    by (induction s) (auto simp: exampleEscaper_def)
  from this [of "[]"] show ?thesis by (simp add: literalBody_def)
qed

theorem formatValue_declares_assigns_returns_witness:
  \<open>declareAssignReturn
     (formatValue exampleEscaper (JObject [(''a"b'', JArray [JNumber NotANumber, JObject []])]))
   \<and> noKeyedObjectLiteral
     (formatValue exampleEscaper (JObject [(''a"b'', JArray [JNumber NotANumber, JObject []])]))\<close>
  using formatValue_declares_assigns_returns [of exampleEscaper, OF exampleEscaper_body] .

text \<open>
  An object with a string and a nested object, as the formatter writes it; the escaper of
  the example at work; numbers as \<open>String\<close> writes them; texts with and without an
  object literal that has a key; and texts inside and outside the shape.
\<close>

lemma formatValue_example:
  \<open>formatValue exampleEscaper
     (JObject [(''engine'', JString ''ChatGPT''),
               (''options'', JObject [(''temperature'', JNumber (Decimal False 0 [7] None))])]) =
   ''(function() { const obj = {}; obj["engine"] = "ChatGPT"; obj["options"] = (function() { const obj = {}; obj["temperature"] = 0.7; return obj; })(); return obj; })()''\<close>
  by code_simp

lemma exampleEscaper_example:
  \<open>exampleEscaper ''say "hi"'' = ''say '' @ [CHR 0x5C] @ ''"hi'' @ [CHR 0x5C] @ ''"''\<close>
  by code_simp

lemma numberToString_examples:
  "numberToString (Decimal False 0 [7] None) = ''0.7''"
  "numberToString (Decimal False 1 [] (Some 21)) = ''1e+21''"
  "numberToString (Decimal True 12 [5] (Some (- 7))) = ''-12.5e-7''"
  "numberToString NotANumber = ''NaN''"
  by code_simp+

lemma object_literal_has_keys:
  \<open>\<not> noKeyedObjectLiteral ''{ a: 1 }''\<close>
  \<open>\<not> noKeyedObjectLiteral ''["x", {"a": 1}, "y"]''\<close>
  \<open>\<not> noKeyedObjectLiteral ''(function() { const obj = {}; obj["k"] = { a: 1 }; return obj; })()''\<close>
  \<open>noKeyedObjectLiteral ''(function() { const obj = {}; obj["k"] = "{ a: 1 }"; return obj; })()''\<close>
  by code_simp+

lemma shape_examples:
  \<open>declareAssignReturn ''0.7''\<close>
  \<open>\<not> declareAssignReturn ''["x", {"a": 1}, "y"]''\<close>
  \<open>\<not> declareAssignReturn ''(function() { const obj = {}; obj["k"] = { a: 1 }; return obj; })()''\<close>
proof -
  show \<open>declareAssignReturn ''0.7''\<close>
    using declareAssignReturn.number [of "Decimal False 0 [7] None"]
    by (simp only: numberToString_examples)
  show \<open>\<not> declareAssignReturn ''["x", {"a": 1}, "y"]''\<close>
    using object_literal_has_keys(2) shape_noKeyed by (rule contrapos_nn)
  show \<open>\<not> declareAssignReturn
           ''(function() { const obj = {}; obj["k"] = { a: 1 }; return obj; })()''\<close>
    using object_literal_has_keys(3) shape_noKeyed by (rule contrapos_nn)
qed

subsection \<open>Strings the sanitizer rejects\<close>

lemma refusedI:
  "(True, m) \<in> set fs \<Longrightarrow> out = Rejected (fail m) \<Longrightarrow> refused out fail fs"
  by (force simp: refused_def list_ex_iff)

lemma unsafe_offending [simp]: "(\<not> isJXASafeString s) = offending (Some s)"
  by (simp add: isJXASafeString_def offending_def)

lemma unsafeGiven_offending [simp]: "unsafeGiven isJXASafeString x = offending x"
  by (cases x) (auto simp: unsafeGiven_def offending_def isJXASafeString_def)

lemma comment_offending [simp]:
  "(case comment of None \<Rightarrow> False | Some c \<Rightarrow> \<not> isJXASafeString c) = offending comment"
  by (cases comment) (simp_all add: offending_def isJXASafeString_def)

lemma tagFields_fire:
  "list_ex fst (tagFields tags) \<Longrightarrow>
   \<exists>t. find (\<lambda>tag. offending (Some tag)) tags = Some t \<and>
       (True, ''Tag '' @ dq @ t @ dq @ '' contains invalid characters'') \<in> set (tagFields tags)"
  by (induction tags) (auto simp: tagFields_def)

lemma tagFields_quiet:
  "\<not> list_ex fst (tagFields tags) \<Longrightarrow> find (\<lambda>tag. offending (Some tag)) tags = None"
  by (induction tags) (auto simp: tagFields_def)

lemma validated_Some [simp]: "validated (Some m) script app = Rejected (failure m)"
  by (simp add: validated_def)

lemma search_refuses:
  "list_ex fst (search_fields input) \<Longrightarrow>
   refused (search isJXASafeString env input app) searchFailure (search_fields input)"
  by (auto simp: refused_def search_fields_def search_def search_validate_def)

lemma renameRecord_refuses:
  "list_ex fst (renameRecord_fields uuid newName databaseName) \<Longrightarrow>
   refused (renameRecord isJXASafeString uuid newName databaseName app) failure
     (renameRecord_fields uuid newName databaseName)"
  by (auto simp: refused_def renameRecord_fields_def renameRecord_def renameRecord_validate_def)

lemma getRecordByIdentifier_refuses:
  "list_ex fst (getRecordByIdentifier_fields uuid databaseName) \<Longrightarrow>
   refused (getRecordByIdentifier isJXASafeString uuid id' databaseName app) recordFailure
     (getRecordByIdentifier_fields uuid databaseName)"
  by (auto simp: refused_def getRecordByIdentifier_fields_def getRecordByIdentifier_def
      getRecordByIdentifier_validate_def)

lemma moveRecord_refuses:
  "list_ex fst (moveRecord_fields uuid recordName recordPath destinationGroupUuid databaseName) \<Longrightarrow>
   refused (moveRecord isJXASafeString move uuid recordId recordName recordPath
              destinationGroupUuid databaseName app) moveFailure
     (moveRecord_fields uuid recordName recordPath destinationGroupUuid databaseName)"
  by (auto simp: refused_def moveRecord_fields_def moveRecord_def moveRecord_validate_def)

lemma deleteRecord_refuses:
  "list_ex fst (recordAddress_fields uuid recordPath databaseName) \<Longrightarrow>
   refused (deleteRecord isJXASafeString delete uuid recordId recordPath databaseName app) failure
     (recordAddress_fields uuid recordPath databaseName)"
  by (auto simp: refused_def recordAddress_fields_def deleteRecord_def deleteRecord_validate_def)

lemma getRecordProperties_refuses:
  "list_ex fst (recordAddress_fields uuid recordPath databaseName) \<Longrightarrow>
   refused (validated (getRecordProperties_validate isJXASafeString uuid recordPath databaseName)
              script app) failure
     (recordAddress_fields uuid recordPath databaseName)"
  by (auto simp: refused_def recordAddress_fields_def getRecordProperties_validate_def)

lemma setRecordProperties_refuses:
  "list_ex fst (setRecordProperties_fields uuid recordPath databaseName comment) \<Longrightarrow>
   refused (validated (setRecordProperties_validate isJXASafeString uuid recordPath databaseName
                         comment) script app) failure
     (setRecordProperties_fields uuid recordPath databaseName comment)"
  by (auto simp: refused_def setRecordProperties_fields_def recordAddress_fields_def
      setRecordProperties_validate_def)

lemma convertRecord_refuses:
  "list_ex fst (destination_fields uuid recordPath destinationGroupUuid databaseName) \<Longrightarrow>
   refused (validated (convertRecord_validate isJXASafeString uuid recordPath
                         destinationGroupUuid databaseName) script app) failure
     (destination_fields uuid recordPath destinationGroupUuid databaseName)"
  by (auto simp: refused_def destination_fields_def convertRecord_validate_def)

lemma replicateRecord_refuses:
  "list_ex fst (destination_fields uuid recordPath destinationGroupUuid databaseName) \<Longrightarrow>
   refused (validated (replicateRecord_validate isJXASafeString uuid recordPath
                         destinationGroupUuid databaseName) script app) failure
     (destination_fields uuid recordPath destinationGroupUuid databaseName)"
  by (auto simp: refused_def destination_fields_def replicateRecord_validate_def)

lemma duplicateRecord_refuses:
  "list_ex fst (destination_fields uuid recordPath destinationGroupUuid databaseName) \<Longrightarrow>
   refused (validated (duplicateRecord_validate isJXASafeString uuid recordPath
                         destinationGroupUuid databaseName) script app) failure
     (destination_fields uuid recordPath destinationGroupUuid databaseName)"
  by (auto simp: refused_def destination_fields_def duplicateRecord_validate_def)

lemma compare_refuses:
  "list_ex fst (compare_fields recordUuid compareWithUuid databaseName comparison) \<Longrightarrow>
   refused (validated (compare_validate isJXASafeString recordUuid compareWithUuid databaseName
                         comparison) script app) failure
     (compare_fields recordUuid compareWithUuid databaseName comparison)"
  by (auto simp: refused_def compare_fields_def compare_validate_def)

lemma classify_refuses:
  "list_ex fst (classify_fields recordUuid databaseName comparison) \<Longrightarrow>
   refused (validated (classify_validate isJXASafeString recordUuid databaseName comparison)
              script app) failure
     (classify_fields recordUuid databaseName comparison)"
  by (auto simp: refused_def classify_fields_def classify_validate_def)

lemma getRecordContent_refuses:
  "list_ex fst (getRecordContent_fields uuid databaseName) \<Longrightarrow>
   refused (validated (getRecordContent_validate isJXASafeString uuid databaseName) script app)
     failure (getRecordContent_fields uuid databaseName)"
  by (auto simp: refused_def getRecordContent_fields_def getRecordContent_validate_def)

lemma updateRecordContent_refuses:
  "list_ex fst (updateRecordContent_fields uuid content) \<Longrightarrow>
   refused (validated (updateRecordContent_validate isJXASafeString uuid content) script app)
     failure (updateRecordContent_fields uuid content)"
  by (auto simp: refused_def updateRecordContent_fields_def updateRecordContent_validate_def)

lemma removeTags_refuses:
  assumes "list_ex fst (removeTags_fields uuid tags databaseName)"
  shows "refused (removeTags isJXASafeString uuid tags databaseName app) failure
           (removeTags_fields uuid tags databaseName)"
proof (cases "offending (Some uuid)")
  case True
  then show ?thesis
    by (intro refusedI [of "''UUID contains invalid characters''"])
       (simp_all add: removeTags_fields_def removeTags_def removeTags_validate_def)
next
  case False
  show ?thesis
  proof (cases "list_ex fst (tagFields tags)")
    case fire: True
    from tagFields_fire [OF fire] obtain t where
      t: "find (\<lambda>tag. offending (Some tag)) tags = Some t"
         "(True, ''Tag '' @ dq @ t @ dq @ '' contains invalid characters'') \<in> set (tagFields tags)"
      by blast
    show ?thesis
      using t False
      by (intro refusedI [of "''Tag '' @ dq @ t @ dq @ '' contains invalid characters''"])
         (simp_all add: removeTags_fields_def removeTags_def removeTags_validate_def)
  next
    case quiet: False
    with assms False have db: "offending databaseName"
      by (simp add: removeTags_fields_def)
    show ?thesis
      using False db tagFields_quiet [OF quiet]
      by (intro refusedI [of "''Database name contains invalid characters''"])
         (simp_all add: removeTags_fields_def removeTags_def removeTags_validate_def)
  qed
qed

lemma addTags_refuses:
  assumes "list_ex fst (addTags_fields uuid tags)"
  shows "refused (validated (addTags_validate isJXASafeString uuid tags) script app) failure
           (addTags_fields uuid tags)"
proof (cases "offending (Some uuid)")
  case True
  then show ?thesis
    by (intro refusedI [of "''UUID contains invalid characters''"])
       (simp_all add: addTags_fields_def addTags_validate_def)
next
  case False
  with assms have fire: "list_ex fst (tagFields tags)"
    by (simp add: addTags_fields_def)
  from tagFields_fire [OF fire] obtain t where
    t: "find (\<lambda>tag. offending (Some tag)) tags = Some t"
       "(True, ''Tag '' @ dq @ t @ dq @ '' contains invalid characters'') \<in> set (tagFields tags)"
    by blast
  show ?thesis
    using t False
    by (intro refusedI [of "''Tag '' @ dq @ t @ dq @ '' contains invalid characters''"])
       (simp_all add: addTags_fields_def addTags_validate_def)
qed

lemma forbiddenChar_iff:
  "forbiddenChar c = (c = CHR 0x22 \<or> c = CHR 0x5C \<or> (controlChar c \<and> c \<noteq> CHR 0x0A))"
  unfolding forbiddenChar_def by (cases "c = CHR 0x0A") simp_all

text \<open>
  C8. A string with a double quote, a backslash or a control character other than newline
  is not safe for \<open>isJXASafeString\<close>, as modelled from the spec, and a field that holds it
  offends. Every operation that validates, given an input in which a validated field
  offends, is refused: it returns, before any script is built, the failure whose message
  names a field that offends. For the operations whose scripts are not modelled the
  script is arbitrary, and it is not run.
\<close>

theorem unsafe_strings_are_refused:
  "(list_ex (\<lambda>c. c = CHR 0x22 \<or> c = CHR 0x5C \<or> (controlChar c \<and> c \<noteq> CHR 0x0A)) s \<longrightarrow>
      \<not> isJXASafeString s \<and> offending (Some s))
   \<and> (\<forall>input env app.
        list_ex fst (search_fields input) \<longrightarrow>
        refused (search isJXASafeString env input app) searchFailure (search_fields input))
   \<and> (\<forall>uuid newName databaseName app.
        list_ex fst (renameRecord_fields uuid newName databaseName) \<longrightarrow>
        refused (renameRecord isJXASafeString uuid newName databaseName app) failure
          (renameRecord_fields uuid newName databaseName))
   \<and> (\<forall>uuid tags databaseName app.
        list_ex fst (removeTags_fields uuid tags databaseName) \<longrightarrow>
        refused (removeTags isJXASafeString uuid tags databaseName app) failure
          (removeTags_fields uuid tags databaseName))
   \<and> (\<forall>uuid id' databaseName app.
        list_ex fst (getRecordByIdentifier_fields uuid databaseName) \<longrightarrow>
        refused (getRecordByIdentifier isJXASafeString uuid id' databaseName app) recordFailure
          (getRecordByIdentifier_fields uuid databaseName))
   \<and> (\<forall>move uuid recordId recordName recordPath destinationGroupUuid databaseName app.
        list_ex fst (moveRecord_fields uuid recordName recordPath destinationGroupUuid
                       databaseName) \<longrightarrow>
        refused (moveRecord isJXASafeString move uuid recordId recordName recordPath
                   destinationGroupUuid databaseName app) moveFailure
          (moveRecord_fields uuid recordName recordPath destinationGroupUuid databaseName))
   \<and> (\<forall>delete uuid recordId recordPath databaseName app.
        list_ex fst (recordAddress_fields uuid recordPath databaseName) \<longrightarrow>
        refused (deleteRecord isJXASafeString delete uuid recordId recordPath databaseName app)
          failure (recordAddress_fields uuid recordPath databaseName))
   \<and> (\<forall>uuid recordPath databaseName script app.
        list_ex fst (recordAddress_fields uuid recordPath databaseName) \<longrightarrow>
        refused (validated (getRecordProperties_validate isJXASafeString uuid recordPath
                              databaseName) script app)
          failure (recordAddress_fields uuid recordPath databaseName))
   \<and> (\<forall>uuid recordPath databaseName comment script app.
        list_ex fst (setRecordProperties_fields uuid recordPath databaseName comment) \<longrightarrow>
        refused (validated (setRecordProperties_validate isJXASafeString uuid recordPath
                              databaseName comment) script app)
          failure (setRecordProperties_fields uuid recordPath databaseName comment))
   \<and> (\<forall>uuid recordPath destinationGroupUuid databaseName script app.
        list_ex fst (destination_fields uuid recordPath destinationGroupUuid databaseName) \<longrightarrow>
        refused (validated (convertRecord_validate isJXASafeString uuid recordPath
                              destinationGroupUuid databaseName) script app)
          failure (destination_fields uuid recordPath destinationGroupUuid databaseName)
        \<and> refused (validated (replicateRecord_validate isJXASafeString uuid recordPath
                              destinationGroupUuid databaseName) script app)
          failure (destination_fields uuid recordPath destinationGroupUuid databaseName)
        \<and> refused (validated (duplicateRecord_validate isJXASafeString uuid recordPath
                              destinationGroupUuid databaseName) script app)
          failure (destination_fields uuid recordPath destinationGroupUuid databaseName))
   \<and> (\<forall>recordUuid compareWithUuid databaseName comparison script app.
        list_ex fst (compare_fields recordUuid compareWithUuid databaseName comparison) \<longrightarrow>
        refused (validated (compare_validate isJXASafeString recordUuid compareWithUuid
                              databaseName comparison) script app)
          failure (compare_fields recordUuid compareWithUuid databaseName comparison))
   \<and> (\<forall>recordUuid databaseName comparison script app.
        list_ex fst (classify_fields recordUuid databaseName comparison) \<longrightarrow>
        refused (validated (classify_validate isJXASafeString recordUuid databaseName comparison)
                   script app)
          failure (classify_fields recordUuid databaseName comparison))
   \<and> (\<forall>uuid databaseName script app.
        list_ex fst (getRecordContent_fields uuid databaseName) \<longrightarrow>
        refused (validated (getRecordContent_validate isJXASafeString uuid databaseName)
                   script app)
          failure (getRecordContent_fields uuid databaseName))
   \<and> (\<forall>uuid tags script app.
        list_ex fst (addTags_fields uuid tags) \<longrightarrow>
        refused (validated (addTags_validate isJXASafeString uuid tags) script app)
          failure (addTags_fields uuid tags))
   \<and> (\<forall>uuid content script app.
        list_ex fst (updateRecordContent_fields uuid content) \<longrightarrow>
        refused (validated (updateRecordContent_validate isJXASafeString uuid content)
                   script app)
          failure (updateRecordContent_fields uuid content))"
proof -
  have a: "list_ex (\<lambda>c. c = CHR 0x22 \<or> c = CHR 0x5C \<or> (controlChar c \<and> c \<noteq> CHR 0x0A)) s \<longrightarrow>
      \<not> isJXASafeString s \<and> offending (Some s)"
    by (simp add: offending_def forbiddenChar_iff [abs_def])
  show ?thesis
    apply (rule conjI, rule a)
    apply (rule conjI, (rule allI impI)+, erule search_refuses)
    apply (rule conjI, (rule allI impI)+, erule renameRecord_refuses)
    apply (rule conjI, (rule allI impI)+, erule removeTags_refuses)
    apply (rule conjI, (rule allI impI)+, erule getRecordByIdentifier_refuses)
    apply (rule conjI, (rule allI impI)+, erule moveRecord_refuses)
    apply (rule conjI, (rule allI impI)+, erule deleteRecord_refuses)
    apply (rule conjI, (rule allI impI)+, erule getRecordProperties_refuses)
    apply (rule conjI, (rule allI impI)+, erule setRecordProperties_refuses)
    apply (rule conjI, (rule allI impI)+, rule conjI, erule convertRecord_refuses,
           rule conjI, erule replicateRecord_refuses, erule duplicateRecord_refuses)
    apply (rule conjI, (rule allI impI)+, erule compare_refuses)
    apply (rule conjI, (rule allI impI)+, erule classify_refuses)
    apply (rule conjI, (rule allI impI)+, erule getRecordContent_refuses)
    apply (rule conjI, (rule allI impI)+, erule addTags_refuses)
    apply ((rule allI impI)+, erule updateRecordContent_refuses)
    done
qed

text \<open>
  A witness for C8: a new name with double quotes, a query with a backslash and a tag
  with a bell character.
\<close>

theorem unsafe_strings_are_refused_witness:
  \<open>\<not> isJXASafeString ''say "hi"''
   \<and> renameRecord isJXASafeString ''AAAA-1111'' ''say "hi"'' None exampleApp =
       Rejected (failure ''New name contains invalid characters'')
   \<and> search isJXASafeString exampleSearchEnv
       ((exampleSearchInput None)\<lparr>si_query := ''a'' @ [CHR 0x5C] @ ''b''\<rparr>) exampleApp =
       Rejected (searchFailure ''Search query contains invalid characters'')
   \<and> removeTags isJXASafeString ''AAAA-1111'' [''keep'', ''bell'' @ [CHR 0x07]] None exampleApp =
       Rejected (failure (''Tag "bell'' @ [CHR 0x07] @ ''" contains invalid characters''))\<close>
proof -
  have c: \<open>list_ex (\<lambda>c. c = CHR 0x22 \<or> c = CHR 0x5C \<or> (controlChar c \<and> c \<noteq> CHR 0x0A)) ''say "hi"''\<close>
    by simp
  have f1: \<open>list_ex fst (renameRecord_fields ''AAAA-1111'' ''say "hi"'' None)\<close>
    by (simp add: renameRecord_fields_def offending_def forbiddenChar_def)
  have f2: \<open>list_ex fst (search_fields ((exampleSearchInput None)\<lparr>si_query := ''a'' @ [CHR 0x5C] @ ''b''\<rparr>))\<close>
    by (simp add: search_fields_def offending_def forbiddenChar_def)
  have f3: \<open>list_ex fst (removeTags_fields ''AAAA-1111'' [''keep'', ''bell'' @ [CHR 0x07]] None)\<close>
    by (simp add: removeTags_fields_def tagFields_def offending_def forbiddenChar_def controlChar_def)
  note t = unsafe_strings_are_refused [of \<open>''say "hi"''\<close>]
  from t [THEN conjunct1] c have 1: \<open>\<not> isJXASafeString ''say "hi"''\<close> by simp
  from t [THEN conjunct2, THEN conjunct2, THEN conjunct1, rule_format, OF f1] have \<open>refused (renameRecord isJXASafeString ''AAAA-1111'' ''say "hi"'' None exampleApp)
                    failure (renameRecord_fields ''AAAA-1111'' ''say "hi"'' None)\<close>
    .
  then have 2: \<open>renameRecord isJXASafeString ''AAAA-1111'' ''say "hi"'' None exampleApp =
       Rejected (failure ''New name contains invalid characters'')\<close>
    by (simp add: refused_def renameRecord_fields_def offending_def forbiddenChar_def controlChar_def)
  from t [THEN conjunct2, THEN conjunct1, rule_format, OF f2] have \<open>refused (search isJXASafeString exampleSearchEnv
       ((exampleSearchInput None)\<lparr>si_query := ''a'' @ [CHR 0x5C] @ ''b''\<rparr>) exampleApp)
       searchFailure (search_fields ((exampleSearchInput None)\<lparr>si_query := ''a'' @ [CHR 0x5C] @ ''b''\<rparr>))\<close>
    .
  then have 3: \<open>search isJXASafeString exampleSearchEnv
       ((exampleSearchInput None)\<lparr>si_query := ''a'' @ [CHR 0x5C] @ ''b''\<rparr>) exampleApp =
       Rejected (searchFailure ''Search query contains invalid characters'')\<close>
    by (simp add: refused_def search_fields_def offending_def forbiddenChar_def controlChar_def
        exampleSearchInput_def)
  from t [THEN conjunct2, THEN conjunct2, THEN conjunct2, THEN conjunct1, rule_format, OF f3] have \<open>refused (removeTags isJXASafeString ''AAAA-1111'' [''keep'', ''bell'' @ [CHR 0x07]] None exampleApp)
       failure (removeTags_fields ''AAAA-1111'' [''keep'', ''bell'' @ [CHR 0x07]] None)\<close>
    .
  then have 4: \<open>removeTags isJXASafeString ''AAAA-1111'' [''keep'', ''bell'' @ [CHR 0x07]] None exampleApp =
       Rejected (failure (''Tag "bell'' @ [CHR 0x07] @ ''" contains invalid characters''))\<close>
    by (simp add: refused_def removeTags_fields_def tagFields_def offending_def forbiddenChar_def
        controlChar_def dq_def)
  from 1 2 3 4 show ?thesis by (intro conjI)
qed

end
